theory Spec2Isabelle
  imports Main "HOL-Library.AList"
begin

section \<open>Python values used by the environment lookups\<close>

text \<open>
  Strings are \<^typ>\<open>string\<close>. The methods \<^verbatim>\<open>str.lower\<close> and \<^verbatim>\<open>str.upper\<close> are modelled
  on the ASCII letters, which is what names of environment variables and of dataclass
  fields are made of: the 26 letters change case, every other character is kept.
  \<^verbatim>\<open>s.replace(c, '')\<close> with a one-character \<^verbatim>\<open>c\<close> deletes every occurrence of \<^verbatim>\<open>c\<close>.
\<close>

definition ascii_uppercase :: string where
  "ascii_uppercase = ''ABCDEFGHIJKLMNOPQRSTUVWXYZ''"

definition ascii_lowercase :: string where
  "ascii_lowercase = ''abcdefghijklmnopqrstuvwxyz''"

definition lower_char :: "char \<Rightarrow> char" where
  "lower_char c =
     (case map_of (zip ascii_uppercase ascii_lowercase) c of Some d \<Rightarrow> d | None \<Rightarrow> c)"

definition upper_char :: "char \<Rightarrow> char" where
  "upper_char c =
     (case map_of (zip ascii_lowercase ascii_uppercase) c of Some d \<Rightarrow> d | None \<Rightarrow> c)"

definition lower :: "string \<Rightarrow> string" where
  "lower s = map lower_char s"

definition upper :: "string \<Rightarrow> string" where
  "upper s = map upper_char s"

definition replace_with_empty :: "char \<Rightarrow> string \<Rightarrow> string" where
  "replace_with_empty c s = filter (\<lambda>x. x \<noteq> c) s"

text \<open>
  \<^verbatim>\<open>def clean(s): return s.replace('-', '').replace('_', '').lower()\<close>
\<close>

definition clean :: "string \<Rightarrow> string" where
  "clean s = lower (replace_with_empty CHR ''_'' (replace_with_empty CHR ''-'' s))"

text \<open>
  The exceptions that the modelled code can raise, and the result of a resolution: the
  value of a variable, or the marker \<^verbatim>\<open>dataclasses.MISSING\<close>.
\<close>

datatype py_error = KeyError | TypeError | ValueError | OSError

datatype resolved = Found string | MISSING

section \<open>The class \<^verbatim>\<open>Env\<close>\<close>

text \<open>
  A Python \<^verbatim>\<open>dict\<close> is an association list in insertion order; \<^verbatim>\<open>d[k] = v\<close> is
  \<^const>\<open>AList.update\<close> (an existing key keeps its place, a new key goes last) and a read
  is \<^const>\<open>map_of\<close>. A Python \<^verbatim>\<open>set\<close> of names is a list without duplicates, standing for
  the set in the order in which the set is iterated; that order is fixed by the hash
  table and not by the program, so the properties below are stated on the \<^const>\<open>set\<close>
  of such a list, or hold for every order.

  The state is everything the module reads and writes: the process environment
  \<^verbatim>\<open>os.environ\<close> and the three class attributes of \<^verbatim>\<open>Env\<close>. A cached class property
  that has not been read yet is \<^const>\<open>None\<close>.
\<close>

record env_state =
  environ :: "(string \<times> string) list"
  var_names_cache :: "string list option"
  accessed_cleaned_to_env :: bool
  cleaned_to_env_cache :: "(string \<times> string) list option"

text \<open>\<^verbatim>\<open>set(d)\<close>: the keys of a dictionary.\<close>

definition set_of_keys :: "(string \<times> 'v) list \<Rightarrow> string list" where
  "set_of_keys d = remdups (map fst d)"

text \<open>
  Modelled from the spec: the decorator \<^verbatim>\<open>cached_class_property\<close> of the module
  \<^verbatim>\<open>decorators\<close> is not among the sources. The first read runs the body and stores its
  result on the class; later reads return the stored object without running the body
  again. The body of \<^verbatim>\<open>var_names\<close> is \<^verbatim>\<open>return set(environ)\<close>.
\<close>

definition var_names :: "env_state \<Rightarrow> string list \<times> env_state" where
  "var_names s =
     (case var_names_cache s of
        Some ns \<Rightarrow> (ns, s)
      | None \<Rightarrow>
          (let ns = set_of_keys (environ s)
           in (ns, s\<lparr>var_names_cache := Some ns\<rparr>)))"

text \<open>
  \<^verbatim>\<open>d.update((clean(var), var) for var in vs)\<close>, and the dictionary comprehension
  \<^verbatim>\<open>{clean(var): var for var in vs}\<close>, which is the same loop from the empty dictionary:
  a later name replaces an earlier one with the same cleaned key.
\<close>

definition update_cleaned :: "string list \<Rightarrow> (string \<times> string) list \<Rightarrow> (string \<times> string) list" where
  "update_cleaned vs d = fold (\<lambda>var m. AList.update (clean var) var m) vs d"

text \<open>
  The cached class property \<^verbatim>\<open>cleaned_to_env\<close>; its body is
  \<^verbatim>\<open>cls._accessed_cleaned_to_env = True\<close>
  \<^verbatim>\<open>return {clean(var): var for var in cls.var_names}\<close>
\<close>

definition cleaned_to_env :: "env_state \<Rightarrow> (string \<times> string) list \<times> env_state" where
  "cleaned_to_env s =
     (case cleaned_to_env_cache s of
        Some m \<Rightarrow> (m, s)
      | None \<Rightarrow>
          (let s1 = s\<lparr>accessed_cleaned_to_env := True\<rparr>;
               (ns, s2) = var_names s1;
               m = update_cleaned ns []
           in (m, s2\<lparr>cleaned_to_env_cache := Some m\<rparr>)))"

text \<open>
  \<^verbatim>\<open>Env.reload(env)\<close>. Only the keys of \<^verbatim>\<open>env\<close> are used, so its values have any type.
  The two \<^verbatim>\<open>update\<close> calls change the cached set and the cached dictionary in place.
\<close>

definition reload :: "(string \<times> 'v) list \<Rightarrow> env_state \<Rightarrow> env_state" where
  "reload env s =
     (let (env_vars, s1) = var_names s;
          new_vars = filter (\<lambda>k. k \<notin> set env_vars) (set_of_keys env);
          s2 = s1\<lparr>var_names_cache := Some (env_vars @ new_vars)\<rparr>
      in if accessed_cleaned_to_env s2 then
           (let (m, s3) = cleaned_to_env s2
            in s3\<lparr>cleaned_to_env_cache := Some (update_cleaned new_vars m)\<rparr>)
         else s2)"

text \<open>The default argument of \<^verbatim>\<open>reload\<close> is \<^verbatim>\<open>os.environ\<close> itself.\<close>

definition reload_environ :: "env_state \<Rightarrow> env_state" where
  "reload_environ s = reload (environ s) s"

section \<open>Overlay files\<close>

text \<open>
  The values of a mapping parsed from a dotenv file are strings or \<^verbatim>\<open>None\<close>
  (\<^verbatim>\<open>Environ = Dict[str, Optional[str]]\<close>). \<^verbatim>\<open>d.update(other)\<close> on a dictionary stores
  the items of \<^verbatim>\<open>other\<close> in their order.
\<close>

type_synonym dotenv_dict = "(string \<times> string option) list"

definition dict_update :: "(string \<times> 'v) list \<Rightarrow> (string \<times> 'v) list \<Rightarrow> (string \<times> 'v) list" where
  "dict_update other d = fold (\<lambda>(k, v) m. AList.update k v m) other d"

text \<open>
  \<^verbatim>\<open>Env.dotenv_values(files)\<close>. The argument is one path, a boolean, or a sequence of
  paths; \<^verbatim>\<open>True\<close> stands for \<^verbatim>\<open>['.env']\<close>, and \<^verbatim>\<open>False\<close> reaches the loop and cannot be
  iterated. The package \<^verbatim>\<open>dotenv\<close> is a library outside the repository: the parameter
  \<open>read_dotenv\<close> stands for \<^verbatim>\<open>dotenv.dotenv_values(dotenv.find_dotenv(f))\<close>.
\<close>

datatype env_file_type = Path string | Flag bool | Files "string list"

fun dotenv_values_loop :: "(string \<Rightarrow> dotenv_dict) \<Rightarrow> string list \<Rightarrow> dotenv_dict \<Rightarrow> dotenv_dict" where
  "dotenv_values_loop read_dotenv [] env = env"
| "dotenv_values_loop read_dotenv (f # fs) env =
     dotenv_values_loop read_dotenv fs (dict_update (read_dotenv f) env)"

definition dotenv_values :: "(string \<Rightarrow> dotenv_dict) \<Rightarrow> env_file_type \<Rightarrow> py_error + dotenv_dict" where
  "dotenv_values read_dotenv files =
     (case files of
        Path f \<Rightarrow> Inr (dotenv_values_loop read_dotenv [f] [])
      | Flag b \<Rightarrow>
          if b then Inr (dotenv_values_loop read_dotenv [''.env''] []) else Inl TypeError
      | Files fs \<Rightarrow> Inr (dotenv_values_loop read_dotenv fs []))"

text \<open>
  \<^verbatim>\<open>environ.update(dotenv_values)\<close>: \<^verbatim>\<open>os.environ\<close> stores the items one by one. Storing
  an item, \<^verbatim>\<open>os.environ[key] = value\<close>, encodes the key, which upper-cases it where
  \<^verbatim>\<open>os.name\<close> is \<^verbatim>\<open>nt\<close>; encodes the value, which raises \<^verbatim>\<open>TypeError\<close> for a value that is
  not a string; calls \<^verbatim>\<open>putenv\<close> with the encoded key and the value; and then stores the
  value under the encoded key. The items stored before an exception stay stored. The
  result is the exception, if any, and the environment.

  \<^verbatim>\<open>os.putenv\<close> is a built-in function of the platform: which names and values it
  refuses, and with which exception, is a parameter \<open>putenv\<close>. The function
  \<open>posix_putenv\<close> is the one of CPython on Linux: a NUL character in the name or in the
  value and a \<^verbatim>\<open>=\<close> in the name raise \<^verbatim>\<open>ValueError\<close>, and the empty name raises \<^verbatim>\<open>OSError\<close>.
\<close>

definition encodekey :: "string \<Rightarrow> string \<Rightarrow> string" where
  "encodekey os_name key = (if os_name = ''nt'' then upper key else key)"

definition posix_putenv :: "string \<Rightarrow> string \<Rightarrow> py_error option" where
  "posix_putenv name value =
     (if CHR 0x00 \<in> set name \<or> CHR 0x00 \<in> set value then Some ValueError
      else if CHR ''='' \<in> set name then Some ValueError
      else if name = [] then Some OSError
      else None)"

fun os_environ_update ::
  "string \<Rightarrow> (string \<Rightarrow> string \<Rightarrow> py_error option) \<Rightarrow> dotenv_dict \<Rightarrow> (string \<times> string) list \<Rightarrow>
   py_error option \<times> (string \<times> string) list" where
  "os_environ_update os_name putenv [] e = (None, e)"
| "os_environ_update os_name putenv ((k, None) # kvs) e = (Some TypeError, e)"
| "os_environ_update os_name putenv ((k, Some v) # kvs) e =
     (case putenv (encodekey os_name k) v of
        Some err \<Rightarrow> (Some err, e)
      | None \<Rightarrow>
          os_environ_update os_name putenv kvs (AList.update (encodekey os_name k) v e))"

text \<open>
  \<^verbatim>\<open>Env.update_with_dotenv(files, dotenv_values)\<close>: the mapping is read from the files
  unless one is given, the cached names are refreshed with it, and then it is stored
  into \<^verbatim>\<open>os.environ\<close>. The result is the exception raised, or \<^verbatim>\<open>None\<close>, and the state.
\<close>

definition update_with_dotenv ::
  "string \<Rightarrow> (string \<Rightarrow> string \<Rightarrow> py_error option) \<Rightarrow> (string \<Rightarrow> dotenv_dict) \<Rightarrow>
   env_file_type \<Rightarrow> dotenv_dict option \<Rightarrow> env_state \<Rightarrow> (py_error + unit) \<times> env_state" where
  "update_with_dotenv os_name putenv read_dotenv files dotenv_values_arg s =
     (case (case dotenv_values_arg of
              None \<Rightarrow> dotenv_values read_dotenv files
            | Some d \<Rightarrow> Inr d) of
        Inl err \<Rightarrow> (Inl err, s)
      | Inr d \<Rightarrow>
          (let s1 = reload d s;
               (raised, e) = os_environ_update os_name putenv d (environ s1)
           in ((case raised of None \<Rightarrow> Inr () | Some err \<Rightarrow> Inl err),
               s1\<lparr>environ := e\<rparr>)))"

section \<open>The lookups\<close>

text \<open>
  A lookup reads the cached class properties, which may fill them, so it returns its
  result together with the state. The result is an exception or a resolved value.
  \<^verbatim>\<open>return environ[key]\<close> raises \<^verbatim>\<open>KeyError\<close> when the key is not in \<^verbatim>\<open>os.environ\<close>.
\<close>

definition environ_getitem :: "string \<Rightarrow> env_state \<Rightarrow> py_error + resolved" where
  "environ_getitem key s =
     (case map_of (environ s) key of None \<Rightarrow> Inl KeyError | Some v \<Rightarrow> Inr (Found v))"

definition try_cleaned :: "string \<Rightarrow> env_state \<Rightarrow> (py_error + resolved) \<times> env_state" where
  "try_cleaned key s =
     (let (m, s1) = cleaned_to_env s
      in case map_of m (clean key) of
           Some key' \<Rightarrow> (environ_getitem key' s1, s1)
         | None \<Rightarrow> (Inr MISSING, s1))"

text \<open>
  \<^verbatim>\<open>lookup_exact(var)\<close>: the argument is a string or a collection of strings. The module
  defines the function twice and \<^verbatim>\<open>os.name == 'nt'\<close> chooses the definition.
\<close>

datatype str_collection = Str string | Collection "string list"

fun lookup_exact_nt_loop :: "string list \<Rightarrow> env_state \<Rightarrow> (py_error + resolved) \<times> env_state" where
  "lookup_exact_nt_loop [] s = (Inr MISSING, s)"
| "lookup_exact_nt_loop (v # vs) s =
     (let v' = upper v;
          (ns, s1) = var_names s
      in if v' \<in> set ns then (environ_getitem v' s1, s1) else lookup_exact_nt_loop vs s1)"

definition lookup_exact_nt :: "str_collection \<Rightarrow> env_state \<Rightarrow> (py_error + resolved) \<times> env_state" where
  "lookup_exact_nt var s =
     (case var of
        Str v \<Rightarrow>
          (let v' = upper v;
               (ns, s1) = var_names s
           in if v' \<in> set ns then (environ_getitem v' s1, s1) else (Inr MISSING, s1))
      | Collection vs \<Rightarrow> lookup_exact_nt_loop vs s)"

fun lookup_exact_posix_loop :: "string list \<Rightarrow> env_state \<Rightarrow> (py_error + resolved) \<times> env_state" where
  "lookup_exact_posix_loop [] s = (Inr MISSING, s)"
| "lookup_exact_posix_loop (v # vs) s =
     (let (ns, s1) = var_names s
      in if v \<in> set ns then (environ_getitem v s1, s1) else lookup_exact_posix_loop vs s1)"

definition lookup_exact_posix :: "str_collection \<Rightarrow> env_state \<Rightarrow> (py_error + resolved) \<times> env_state" where
  "lookup_exact_posix var s =
     (case var of
        Str v \<Rightarrow>
          (let (ns, s1) = var_names s
           in if v \<in> set ns then (environ_getitem v s1, s1) else (Inr MISSING, s1))
      | Collection vs \<Rightarrow> lookup_exact_posix_loop vs s)"

definition lookup_exact ::
  "string \<Rightarrow> str_collection \<Rightarrow> env_state \<Rightarrow> (py_error + resolved) \<times> env_state" where
  "lookup_exact os_name var s =
     (if os_name = ''nt'' then lookup_exact_nt var s else lookup_exact_posix var s)"

definition with_screaming_snake_case :: "string \<Rightarrow> env_state \<Rightarrow> (py_error + resolved) \<times> env_state" where
  "with_screaming_snake_case field_name s =
     (let upper_key = upper field_name;
          (ns, s1) = var_names s
      in if upper_key \<in> set ns then (environ_getitem upper_key s1, s1)
         else
           (let (ns', s2) = var_names s1
            in if field_name \<in> set ns' then (environ_getitem field_name s2, s2)
               else try_cleaned field_name s2))"

definition with_snake_case :: "string \<Rightarrow> env_state \<Rightarrow> (py_error + resolved) \<times> env_state" where
  "with_snake_case field_name s =
     (let (ns, s1) = var_names s
      in if field_name \<in> set ns then (environ_getitem field_name s1, s1)
         else
           (let upper_key = upper field_name;
                (ns', s2) = var_names s1
            in if upper_key \<in> set ns' then (environ_getitem upper_key s2, s2)
               else try_cleaned field_name s2))"

text \<open>
  \<^verbatim>\<open>with_pascal_or_camel_case(field_name)\<close>. The helper \<^verbatim>\<open>to_snake_case\<close> of the module
  \<^verbatim>\<open>utils.string_conv\<close> is not among the sources and is a parameter here.
\<close>

definition with_pascal_or_camel_case ::
  "(string \<Rightarrow> string) \<Rightarrow> string \<Rightarrow> env_state \<Rightarrow> (py_error + resolved) \<times> env_state" where
  "with_pascal_or_camel_case to_snake_case field_name s =
     (let (ns, s1) = var_names s
      in if field_name \<in> set ns then (environ_getitem field_name s1, s1)
         else
           (let snake_key = to_snake_case field_name;
                upper_key = upper snake_key;
                (ns', s2) = var_names s1
            in if upper_key \<in> set ns' then (environ_getitem upper_key s2, s2)
               else
                 (let (ns'', s3) = var_names s2
                  in if snake_key \<in> set ns'' then (environ_getitem snake_key s3, s3)
                     else try_cleaned field_name s3)))"

text \<open>
  Modelled from the spec: \<^verbatim>\<open>to_snake_case\<close> is not among the sources. The spec says that
  it converts camel and Pascal boundaries to \<^verbatim>\<open>_\<close>-separated lowercase words, with the
  example \<^verbatim>\<open>myEnvVar\<close> to \<^verbatim>\<open>my_env_var\<close>: an upper-case letter after the first character
  starts a new word.
\<close>

fun snake_words :: "string \<Rightarrow> string" where
  "snake_words [] = []"
| "snake_words (c # cs) =
     (if c \<in> set ascii_uppercase then CHR ''_'' # lower_char c # snake_words cs
      else c # snake_words cs)"

definition spec_to_snake_case :: "string \<Rightarrow> string" where
  "spec_to_snake_case s = (case s of [] \<Rightarrow> [] | c # cs \<Rightarrow> lower_char c # snake_words cs)"

text \<open>The states of the examples: a process environment read for the first time.\<close>

definition fresh :: "(string \<times> string) list \<Rightarrow> env_state" where
  "fresh e = \<lparr>environ = e, var_names_cache = None,
              accessed_cleaned_to_env = False, cleaned_to_env_cache = None\<rparr>"

section \<open>The diagnostics of \<^verbatim>\<open>errors.py\<close>\<close>

text \<open>
  A Python value of type \<^verbatim>\<open>Any\<close> is a string or a value of a type that is left open.
  What Python computes from such values and from classes is a parameter of the model,
  collected in one record: \<^verbatim>\<open>repr\<close> and \<^verbatim>\<open>str\<close>, \<^verbatim>\<open>json.dumps\<close> (which can raise), and
  the helpers \<^verbatim>\<open>type_name\<close> of \<^verbatim>\<open>utils.type_helper\<close> and \<^verbatim>\<open>get_loader\<close> of \<^verbatim>\<open>loaders\<close>, which
  are not among the sources: \<open>key_transform_name cls\<close> stands for the \<^verbatim>\<open>__name__\<close> of the
  key transform of the loader of \<^verbatim>\<open>cls\<close>.
\<close>

datatype 'v any = PyStr string | PyObj 'v

type_synonym 'v json_object = "(string \<times> 'v any) list"

record ('v, 'c) python =
  repr_str :: "string \<Rightarrow> string"
  repr_obj :: "'v \<Rightarrow> string"
  str_obj :: "'v \<Rightarrow> string"
  json_dumps :: "'v json_object \<Rightarrow> py_error + string"
  type_name :: "'c \<Rightarrow> string"
  type_name_of_value :: "'v any \<Rightarrow> string"
  key_transform_name :: "'c \<Rightarrow> string"

definition repr :: "('v, 'c) python \<Rightarrow> 'v any \<Rightarrow> string" where
  "repr py v = (case v of PyStr s \<Rightarrow> repr_str py s | PyObj x \<Rightarrow> repr_obj py x)"

definition str :: "('v, 'c) python \<Rightarrow> 'v any \<Rightarrow> string" where
  "str py v = (case v of PyStr s \<Rightarrow> s | PyObj x \<Rightarrow> str_obj py x)"

text \<open>An optional string in a format field: \<^verbatim>\<open>None\<close> is printed as \<^verbatim>\<open>None\<close>.\<close>

definition str_optional :: "string option \<Rightarrow> string" where
  "str_optional x = (case x of None \<Rightarrow> ''None'' | Some s \<Rightarrow> s)"

definition repr_optional :: "('v, 'c) python \<Rightarrow> string option \<Rightarrow> string" where
  "repr_optional py x = (case x of None \<Rightarrow> ''None'' | Some s \<Rightarrow> repr_str py s)"

text \<open>The \<^verbatim>\<open>repr\<close> of a list of strings, \<^verbatim>\<open>sep.join(parts)\<close>, and \<^verbatim>\<open>str(n)\<close> for a length.\<close>

fun join :: "string \<Rightarrow> string list \<Rightarrow> string" where
  "join sep [] = []"
| "join sep [x] = x"
| "join sep (x # y # ys) = x @ sep @ join sep (y # ys)"

definition repr_list :: "('v, 'c) python \<Rightarrow> string list \<Rightarrow> string" where
  "repr_list py xs = ''['' @ join '', '' (map (repr_str py) xs) @ '']''"

fun str_nat :: "nat \<Rightarrow> string" where
  "str_nat n =
     (if n < 10 then [''0123456789'' ! n]
      else str_nat (n div 10) @ [''0123456789'' ! (n mod 10)])"

declare str_nat.simps [simp del]

definition newline :: string where
  "newline = [CHR 0x0A]"

definition sep :: string where
  "sep = newline @ ''  ''"

text \<open>
  The trailing part of a message: \<^verbatim>\<open>if self.kwargs:\<close> the items are joined with the
  separator, each formatted by \<open>fmt\<close> (\<^verbatim>\<open>{v!r}\<close> or \<^verbatim>\<open>{v}\<close>), and appended.
\<close>

definition append_kwargs ::
  "('v any \<Rightarrow> string) \<Rightarrow> string \<Rightarrow> (string \<times> 'v any) list \<Rightarrow> string" where
  "append_kwargs fmt msg kwargs =
     (if kwargs \<noteq> [] then msg @ sep @ join sep (map (\<lambda>(k, v). k @ '': '' @ fmt v) kwargs)
      else msg)"

subsection \<open>\<^verbatim>\<open>ParseError\<close>\<close>

text \<open>
  The attributes of an error object are the fields of a record; the fields of each class
  carry the initials of the class, since several classes have attributes of the same name.
\<close>

record ('v, 'c) ParseError =
  pe_obj :: "'v any"
  pe_obj_type :: "'v any"
  pe_ann_type :: 'c
  pe_base_error :: "'v any"
  pe_kwargs :: "(string \<times> 'v any) list"
  pe_class_name :: "string option"
  pe_default_class_name :: "string option"
  pe_field_name :: "string option"
  pe_json_object :: "'v json_object option"

text \<open>
  \<^verbatim>\<open>ParseError.__init__\<close>. The field \<open>pe_obj_type\<close> holds the object whose type
  \<^verbatim>\<open>type(obj)\<close> is stored. A class is truthy, so \<^verbatim>\<open>_default_class\<close> is named when given.
\<close>

definition ParseError_init ::
  "('v, 'c) python \<Rightarrow> 'v any \<Rightarrow> 'v any \<Rightarrow> 'c \<Rightarrow> 'c option \<Rightarrow> string option \<Rightarrow>
   'v json_object option \<Rightarrow> (string \<times> 'v any) list \<Rightarrow> ('v, 'c) ParseError" where
  "ParseError_init py base_err obj ann_type default_class' field_name json_object kwargs =
     \<lparr>pe_obj = obj, pe_obj_type = obj, pe_ann_type = ann_type, pe_base_error = base_err,
      pe_kwargs = kwargs, pe_class_name = None,
      pe_default_class_name =
        (case default_class' of None \<Rightarrow> None | Some c \<Rightarrow> Some (type_name py c)),
      pe_field_name = field_name, pe_json_object = json_object\<rparr>"

text \<open>\<^verbatim>\<open>return self._class_name or self._default_class_name\<close>: an empty name is falsy.\<close>

definition class_name :: "('v, 'c, 'z) ParseError_scheme \<Rightarrow> string option" where
  "class_name e =
     (case pe_class_name e of
        Some n \<Rightarrow> if n \<noteq> [] then Some n else pe_default_class_name e
      | None \<Rightarrow> pe_default_class_name e)"

text \<open>
  The class attribute \<^verbatim>\<open>_TEMPLATE\<close> of each class is the function that \<^verbatim>\<open>str.format\<close>
  makes of it, taking the formatted fields in the order in which they occur.
\<close>

definition ParseError_TEMPLATE ::
  "string \<Rightarrow> string \<Rightarrow> string \<Rightarrow> string \<Rightarrow> string \<Rightarrow> string \<Rightarrow> string" where
  "ParseError_TEMPLATE field cls ann_type obj_type o_repr e_str =
     ''Failure parsing field `'' @ field @ ''` in class `'' @ cls
     @ ''`. Expected a type '' @ ann_type @ '', got '' @ obj_type @ ''.'' @ newline
     @ ''  value: '' @ o_repr @ newline
     @ ''  error: '' @ e_str"

text \<open>
  \<^verbatim>\<open>ParseError.message\<close>. The property stores the dumped \<^verbatim>\<open>json_object\<close> into
  \<^verbatim>\<open>self.kwargs\<close>, so it returns the message, or the exception of \<^verbatim>\<open>json.dumps\<close>, together
  with the object. An empty or absent \<^verbatim>\<open>json_object\<close> is falsy.
\<close>

definition ParseError_message ::
  "('v, 'c) python \<Rightarrow> ('v, 'c) ParseError \<Rightarrow> (py_error + string) \<times> ('v, 'c) ParseError" where
  "ParseError_message py e =
     (let msg = ParseError_TEMPLATE (str_optional (pe_field_name e))
                  (str_optional (class_name e)) (type_name py (pe_ann_type e))
                  (type_name_of_value py (pe_obj_type e)) (repr py (pe_obj e))
                  (str py (pe_base_error e))
      in case (case pe_json_object e of
                 None \<Rightarrow> Inr e
               | Some j \<Rightarrow>
                   if j \<noteq> [] then
                     (case json_dumps py j of
                        Inl err \<Rightarrow> Inl err
                      | Inr dumped \<Rightarrow>
                          Inr (e\<lparr>pe_kwargs :=
                                   AList.update ''json_object'' (PyStr dumped) (pe_kwargs e)\<rparr>))
                   else Inr e) of
           Inl err \<Rightarrow> (Inl err, e)
         | Inr e' \<Rightarrow> (Inr (append_kwargs (repr py) msg (pe_kwargs e')), e'))"

subsection \<open>\<^verbatim>\<open>ExtraData\<close>\<close>

text \<open>The two collections of names are lists, printed as a list is.\<close>

record ExtraData =
  ed_class_name :: string
  ed_extra_kwargs :: "string list"
  ed_field_names :: "string list"

definition ExtraData_init ::
  "('v, 'c) python \<Rightarrow> 'c \<Rightarrow> string list \<Rightarrow> string list \<Rightarrow> ExtraData" where
  "ExtraData_init py cls extra_kwargs field_names =
     \<lparr>ed_class_name = type_name py cls, ed_extra_kwargs = extra_kwargs,
      ed_field_names = field_names\<rparr>"

definition ExtraData_TEMPLATE :: "string \<Rightarrow> string \<Rightarrow> string \<Rightarrow> string" where
  "ExtraData_TEMPLATE cls extra_kwargs field_names =
     cls @ ''.__init__() received extra keyword arguments:'' @ newline
     @ ''  extras: '' @ extra_kwargs @ newline
     @ ''  fields: '' @ field_names @ newline
     @ ''  resolution: specify a value for `extra` in the Meta config for the class, ''
     @ ''to control how extra keyword arguments are handled.''"

definition ExtraData_message :: "('v, 'c) python \<Rightarrow> ExtraData \<Rightarrow> string" where
  "ExtraData_message py e =
     ExtraData_TEMPLATE (ed_class_name e) (repr_list py (ed_extra_kwargs e))
       (repr_list py (ed_field_names e))"

subsection \<open>\<^verbatim>\<open>MissingFields\<close>\<close>

text \<open>
  A \<^verbatim>\<open>dataclasses.Field\<close>: its name, and its default and default factory, where
  \<^const>\<open>None\<close> is the marker \<^verbatim>\<open>MISSING\<close>.
\<close>

record 'v Field =
  f_name :: string
  f_default :: "'v any option"
  f_default_factory :: "'v any option"

record 'v MissingFields =
  mf_obj :: "'v json_object"
  mf_fields :: "string list"
  mf_missing_fields :: "string list"
  mf_base_error :: "'v any"
  mf_kwargs :: "(string \<times> 'v any) list"
  mf_class_name :: string

text \<open>
  \<^verbatim>\<open>MissingFields.__init__\<close>. The helper \<^verbatim>\<open>normalize\<close> of \<^verbatim>\<open>utils.string_conv\<close> is not
  among the sources and is a parameter. \<^verbatim>\<open>next((f for f in ... if ...), None)\<close> is the first
  missing field whose normalized name is a normalized key of \<^verbatim>\<open>obj\<close>, and the \<^verbatim>\<open>if\<close> tests
  its truth value: the empty string is falsy.
\<close>

definition MissingFields_init ::
  "('v, 'c) python \<Rightarrow> (string \<Rightarrow> string) \<Rightarrow> 'v any \<Rightarrow> 'v json_object \<Rightarrow> 'c \<Rightarrow>
   'v json_object \<Rightarrow> 'v Field list \<Rightarrow> (string \<times> 'v any) list \<Rightarrow> 'v MissingFields" where
  "MissingFields_init py normalize' base_err obj cls cls_kwargs cls_fields kwargs =
     (let fields = map fst cls_kwargs;
          missing_fields =
            map f_name
              (filter (\<lambda>f. f_name f \<notin> set fields \<and> f_default f = None
                           \<and> f_default_factory f = None) cls_fields);
          normalized_json_keys = map normalize' (map fst obj);
          kwargs' =
            (case find (\<lambda>f. normalize' f \<in> set normalized_json_keys) missing_fields of
               None \<Rightarrow> kwargs
             | Some f \<Rightarrow>
                 if f \<noteq> [] then
                   AList.update ''resolution''
                     (PyStr (''For more details, please see ''
                             @ ''https://github.com/rnag/dataclass-wizard/issues/54''))
                     (AList.update ''key transform'' (PyStr (key_transform_name py cls @ ''()''))
                        kwargs)
                 else kwargs)
      in \<lparr>mf_obj = obj, mf_fields = fields, mf_missing_fields = missing_fields,
          mf_base_error = base_err, mf_kwargs = kwargs', mf_class_name = type_name py cls\<rparr>)"

definition MissingFields_TEMPLATE ::
  "string \<Rightarrow> string \<Rightarrow> string \<Rightarrow> string \<Rightarrow> string \<Rightarrow> string" where
  "MissingFields_TEMPLATE cls fields' missing_fields json_string e_str =
     ''Failure calling constructor method of class `'' @ cls @ ''`. ''
     @ ''Missing values for required dataclass fields.'' @ newline
     @ ''  have fields: '' @ fields' @ newline
     @ ''  missing fields: '' @ missing_fields @ newline
     @ ''  input JSON object: '' @ json_string @ newline
     @ ''  error: '' @ e_str"

text \<open>\<^verbatim>\<open>MissingFields.message\<close>; the trailing items are printed with \<^verbatim>\<open>str\<close>.\<close>

definition MissingFields_message :: "('v, 'c) python \<Rightarrow> 'v MissingFields \<Rightarrow> py_error + string" where
  "MissingFields_message py e =
     (case json_dumps py (mf_obj e) of
        Inl err \<Rightarrow> Inl err
      | Inr json_string \<Rightarrow>
          Inr (append_kwargs (str py)
                (MissingFields_TEMPLATE (mf_class_name e) (repr_list py (mf_fields e))
                   (repr_list py (mf_missing_fields e)) json_string (str py (mf_base_error e)))
                (mf_kwargs e)))"

subsection \<open>\<^verbatim>\<open>UnknownJSONKey\<close>\<close>

record 'v UnknownJSONKey =
  uk_json_key :: string
  uk_obj :: "'v json_object"
  uk_fields :: "string list"
  uk_kwargs :: "(string \<times> 'v any) list"
  uk_class_name :: string

definition UnknownJSONKey_init ::
  "('v, 'c) python \<Rightarrow> string \<Rightarrow> 'v json_object \<Rightarrow> 'c \<Rightarrow> 'v Field list \<Rightarrow>
   (string \<times> 'v any) list \<Rightarrow> 'v UnknownJSONKey" where
  "UnknownJSONKey_init py json_key obj cls cls_fields kwargs =
     \<lparr>uk_json_key = json_key, uk_obj = obj, uk_fields = map f_name cls_fields,
      uk_kwargs = kwargs, uk_class_name = type_name py cls\<rparr>"

definition UnknownJSONKey_TEMPLATE :: "string \<Rightarrow> string \<Rightarrow> string \<Rightarrow> string \<Rightarrow> string" where
  "UnknownJSONKey_TEMPLATE cls json_key fields' json_string =
     ''A JSON key is missing from the dataclass schema for class `'' @ cls @ ''`.'' @ newline
     @ ''  unknown key: '' @ json_key @ newline
     @ ''  dataclass fields: '' @ fields' @ newline
     @ ''  input JSON object: '' @ json_string"

definition UnknownJSONKey_message ::
  "('v, 'c) python \<Rightarrow> 'v UnknownJSONKey \<Rightarrow> py_error + string" where
  "UnknownJSONKey_message py e =
     (case json_dumps py (uk_obj e) of
        Inl err \<Rightarrow> Inl err
      | Inr json_string \<Rightarrow>
          Inr (append_kwargs (repr py)
                (UnknownJSONKey_TEMPLATE (uk_class_name e) (repr_str py (uk_json_key e))
                   (repr_list py (uk_fields e)) json_string)
                (uk_kwargs e)))"

subsection \<open>\<^verbatim>\<open>MissingData\<close>\<close>

text \<open>
  \<^verbatim>\<open>MissingData\<close> extends \<^verbatim>\<open>ParseError\<close>: its \<^verbatim>\<open>__init__\<close> calls
  \<^verbatim>\<open>super().__init__(self, None, nested_cls, **kwargs)\<close>, so the object is its own base
  error (which no message reads; the field holds the given placeholder \<open>self\<close>), \<^verbatim>\<open>obj\<close> is
  \<^verbatim>\<open>None\<close> (the given value \<open>none\<close>), and the keyword arguments named
  \<^verbatim>\<open>_default_class\<close>, \<^verbatim>\<open>_field_name\<close> and \<^verbatim>\<open>_json_object\<close> are taken out of
  \<^verbatim>\<open>kwargs\<close> by the signature of \<^verbatim>\<open>ParseError.__init__\<close>. Its message dumps \<^verbatim>\<open>None\<close>, which
  cannot fail and is not printed.
\<close>

record ('v, 'c) MissingData = "('v, 'c) ParseError" +
  nested_class_name :: string

definition MissingData_init ::
  "('v, 'c) python \<Rightarrow> 'v any \<Rightarrow> 'v any \<Rightarrow> 'c \<Rightarrow> 'c option \<Rightarrow> string option \<Rightarrow>
   'v json_object option \<Rightarrow> (string \<times> 'v any) list \<Rightarrow> ('v, 'c) MissingData" where
  "MissingData_init py self none nested_cls default_class' field_name json_object kwargs =
     ParseError.extend
       (ParseError_init py self none nested_cls default_class' field_name json_object kwargs)
       (MissingData.fields (type_name py nested_cls))"

definition MissingData_TEMPLATE :: "string \<Rightarrow> string \<Rightarrow> string \<Rightarrow> string" where
  "MissingData_TEMPLATE cls field nested_cls =
     ''Failure loading class `'' @ cls @ ''`. ''
     @ ''Missing value for field (expected a dict, got None)'' @ newline
     @ ''  dataclass field: '' @ field @ newline
     @ ''  resolution: annotate the field as `Optional['' @ nested_cls
     @ '']` or `'' @ nested_cls @ '' | None`''"

definition MissingData_message :: "('v, 'c) python \<Rightarrow> ('v, 'c) MissingData \<Rightarrow> string" where
  "MissingData_message py e =
     append_kwargs (repr py)
       (MissingData_TEMPLATE (str_optional (class_name e)) (repr_optional py (pe_field_name e))
          (nested_class_name e))
       (pe_kwargs e)"

subsection \<open>\<^verbatim>\<open>MissingVars\<close>\<close>

record MissingVars =
  mv_class_name :: string
  mv_fields :: string
  mv_def_resolution :: string
  mv_init_resolution :: string
  mv_prefix :: string

definition indent :: string where
  "indent = replicate 4 CHR '' ''"

definition MissingVars_init ::
  "('v, 'c) python \<Rightarrow> 'c \<Rightarrow> (string \<times> string \<times> 'v any) list \<Rightarrow> MissingVars" where
  "MissingVars_init py cls missing_vars =
     (let class_name' = type_name py cls;
          init_vars = join '', '' (map (\<lambda>(f, typ, default'). f @ ''='' @ repr py default') missing_vars);
          num_fields = length missing_vars
      in \<lparr>mv_class_name = class_name',
          mv_fields = join newline (map (\<lambda>f. indent @ ''- '' @ fst f) missing_vars),
          mv_def_resolution =
            join newline
              ((''class '' @ class_name' @ '':'')
               # map (\<lambda>(f, typ, default'). indent @ f @ '': '' @ typ @ '' = '' @ repr py default')
                   missing_vars),
          mv_init_resolution = ''instance = '' @ class_name' @ ''('' @ init_vars @ '')'',
          mv_prefix =
            (if num_fields > 1
             then ''There are '' @ str_nat (length missing_vars) @ '' required fields''
             else ''There is '' @ str_nat (length missing_vars) @ '' required field'')\<rparr>)"

definition MissingVars_TEMPLATE ::
  "string \<Rightarrow> string \<Rightarrow> string \<Rightarrow> string \<Rightarrow> string \<Rightarrow> string" where
  "MissingVars_TEMPLATE prefix cls fields' def_resolution init_resolution =
     prefix @ '' in class `'' @ cls @ ''` missing in the Environment:'' @ newline
     @ fields' @ newline @ newline
     @ ''resolution #1: set a default value for any optional fields, as below.'' @ newline @ newline
     @ def_resolution
     @ newline @ newline @ ''...'' @ newline
     @ ''resolution #2: pass in values for required fields to '' @ cls
     @ ''.__init__():'' @ newline @ newline
     @ ''    '' @ init_resolution"

definition MissingVars_message :: "MissingVars \<Rightarrow> string" where
  "MissingVars_message e =
     MissingVars_TEMPLATE (mv_prefix e) (mv_class_name e) (mv_fields e) (mv_def_resolution e)
       (mv_init_resolution e)"

subsection \<open>The property \<^verbatim>\<open>message\<close> of any diagnostic\<close>

text \<open>
  \<^verbatim>\<open>JSONWizardError.message\<close> is abstract and each class implements it. Reading the
  property of an object gives the message, or the exception raised, and the object as
  the read leaves it.
\<close>

datatype ('v, 'c) JSONWizardError =
    Is_ParseError "('v, 'c) ParseError"
  | Is_ExtraData ExtraData
  | Is_MissingFields "'v MissingFields"
  | Is_UnknownJSONKey "'v UnknownJSONKey"
  | Is_MissingData "('v, 'c) MissingData"
  | Is_MissingVars MissingVars

fun message ::
  "('v, 'c) python \<Rightarrow> ('v, 'c) JSONWizardError \<Rightarrow> (py_error + string) \<times> ('v, 'c) JSONWizardError" where
  "message py (Is_ParseError e) =
     (case ParseError_message py e of (r, e') \<Rightarrow> (r, Is_ParseError e'))"
| "message py (Is_ExtraData e) = (Inr (ExtraData_message py e), Is_ExtraData e)"
| "message py (Is_MissingFields e) = (MissingFields_message py e, Is_MissingFields e)"
| "message py (Is_UnknownJSONKey e) = (UnknownJSONKey_message py e, Is_UnknownJSONKey e)"
| "message py (Is_MissingData e) = (Inr (MissingData_message py e), Is_MissingData e)"
| "message py (Is_MissingVars e) = (Inr (MissingVars_message e), Is_MissingVars e)"

text \<open>
  Modelled from the spec: \<^verbatim>\<open>normalize\<close> of \<^verbatim>\<open>utils.string_conv\<close> is not among the sources.
  The spec describes normalization as removing every \<^verbatim>\<open>-\<close> and \<^verbatim>\<open>_\<close> and folding to
  lower case, which is what \<^const>\<open>clean\<close> does.
\<close>

definition spec_normalize :: "string \<Rightarrow> string" where
  "spec_normalize s = clean s"

text \<open>
  A Python for the examples: values are integers, a class is given by its name, a string
  is printed between quotes and a dictionary is dumped as the list of its keys.
\<close>

definition example_python :: "(int, string) python" where
  "example_python =
     \<lparr>repr_str = (\<lambda>s. [CHR 0x27] @ s @ [CHR 0x27]),
      repr_obj = (\<lambda>i. if i = 1 then ''1'' else ''<int>''),
      str_obj = (\<lambda>i. if i = 1 then ''1'' else ''<int>''),
      json_dumps = (\<lambda>j. Inr (''{'' @ join '', '' (map fst j) @ ''}'')),
      type_name = (\<lambda>c. c),
      type_name_of_value = (\<lambda>v. case v of PyStr s \<Rightarrow> ''str'' | PyObj i \<Rightarrow> ''int''),
      key_transform_name = (\<lambda>c. ''to_snake_case'')\<rparr>"

section \<open>Properties of \<^verbatim>\<open>clean\<close>\<close>

lemmas str_eval =
  clean_def lower_def upper_def replace_with_empty_def lower_char_def upper_char_def
  ascii_uppercase_def ascii_lowercase_def

lemma ascii_length: "length ascii_uppercase = length ascii_lowercase"
  by (simp add: ascii_uppercase_def ascii_lowercase_def)

lemma ascii_disjoint: "d \<in> set ascii_lowercase \<Longrightarrow> d \<notin> set ascii_uppercase"
  by (auto simp: ascii_uppercase_def ascii_lowercase_def)

lemma lower_char_range:
  assumes "map_of (zip ascii_uppercase ascii_lowercase) c = Some d"
  shows "d \<in> set ascii_lowercase"
  using assms by (meson map_of_SomeD set_zip_rightD)

lemma lower_char_fix: "d \<notin> set ascii_uppercase \<Longrightarrow> lower_char d = d"
  by (simp add: lower_char_def map_of_zip_is_None[OF ascii_length, THEN iffD2])

lemma lower_char_idem: "lower_char (lower_char c) = lower_char c"
proof (cases "map_of (zip ascii_uppercase ascii_lowercase) c")
  case None
  then show ?thesis by (simp add: lower_char_def)
next
  case (Some d)
  then have "lower_char c = d" by (simp add: lower_char_def)
  moreover have "lower_char d = d"
    using Some lower_char_range ascii_disjoint lower_char_fix by blast
  ultimately show ?thesis by simp
qed

lemma lower_char_separator:
  "lower_char c = CHR ''-'' \<longleftrightarrow> c = CHR ''-''" "lower_char c = CHR ''_'' \<longleftrightarrow> c = CHR ''_''"
proof -
  have sep: "CHR ''-'' \<notin> set ascii_lowercase" "CHR ''_'' \<notin> set ascii_lowercase"
            "CHR ''-'' \<notin> set ascii_uppercase" "CHR ''_'' \<notin> set ascii_uppercase"
    by (simp_all add: ascii_uppercase_def ascii_lowercase_def)
  have img: "lower_char c = c \<or> lower_char c \<in> set ascii_lowercase"
    by (cases "map_of (zip ascii_uppercase ascii_lowercase) c")
       (auto simp: lower_char_def dest: lower_char_range)
  show "lower_char c = CHR ''-'' \<longleftrightarrow> c = CHR ''-''"
    using img sep lower_char_fix by metis
  show "lower_char c = CHR ''_'' \<longleftrightarrow> c = CHR ''_''"
    using img sep lower_char_fix by metis
qed

lemma lower_idem: "lower (lower s) = lower s"
  by (simp add: lower_def lower_char_idem)

lemma replace_with_empty_lower:
  "c = CHR ''-'' \<or> c = CHR ''_'' \<Longrightarrow>
   replace_with_empty c (lower s) = lower (replace_with_empty c s)"
  by (induction s) (auto simp: replace_with_empty_def lower_def lower_char_separator)

lemma replace_with_empty_idem:
  "replace_with_empty c (replace_with_empty c s) = replace_with_empty c s"
  by (simp add: replace_with_empty_def)

lemma replace_with_empty_commute:
  "replace_with_empty c (replace_with_empty d s) = replace_with_empty d (replace_with_empty c s)"
  by (auto simp: replace_with_empty_def intro: filter_cong)

text \<open>
  C9. Cleaning is idempotent: cleaning a cleaned string changes nothing, for every
  string. Cleaning deletes every \<^verbatim>\<open>-\<close> and every \<^verbatim>\<open>_\<close> and lower-cases what is left.
\<close>

theorem clean_idempotent:
  "clean (clean s) = clean s \<and>
   clean s = map lower_char (filter (\<lambda>x. x \<noteq> CHR ''-'' \<and> x \<noteq> CHR ''_'') s)"
proof
  let ?d = "replace_with_empty CHR ''-''" and ?u = "replace_with_empty CHR ''_''"
  have "clean (clean s) = lower (?u (?d (lower (?u (?d s)))))"
    by (simp add: clean_def)
  also have "\<dots> = lower (lower (?u (?d (?u (?d s)))))"
    by (simp add: replace_with_empty_lower)
  also have "?u (?d (?u (?d s))) = ?u (?d s)"
    by (metis replace_with_empty_commute replace_with_empty_idem)
  finally show "clean (clean s) = clean s"
    by (simp add: lower_idem clean_def)
  show "clean s = map lower_char (filter (\<lambda>x. x \<noteq> CHR ''-'' \<and> x \<noteq> CHR ''_'') s)"
    by (simp add: clean_def lower_def replace_with_empty_def conj_commute)
qed

theorem clean_idempotent_witness:
  "clean (clean ''My-Env_Var'') = clean ''My-Env_Var'' \<and> clean ''My-Env_Var'' = ''myenvvar''"
proof -
  have "clean ''My-Env_Var'' = ''myenvvar''"
    by (simp add: str_eval)
  with clean_idempotent [of "''My-Env_Var''"] show ?thesis
    by blast
qed

section \<open>Properties of \<^verbatim>\<open>Env.reload\<close>\<close>

lemma fst_var_names:
  "fst (var_names s) = (case var_names_cache s of Some ns \<Rightarrow> ns | None \<Rightarrow> set_of_keys (environ s))"
  by (simp add: var_names_def Let_def split: option.splits)

lemma var_names_cache_after:
  "var_names_cache (snd (var_names s)) = Some (fst (var_names s))"
  by (simp add: var_names_def Let_def split: option.splits)

lemma var_names_frame:
  "environ (snd (var_names s)) = environ s"
  "accessed_cleaned_to_env (snd (var_names s)) = accessed_cleaned_to_env s"
  "cleaned_to_env_cache (snd (var_names s)) = cleaned_to_env_cache s"
  by (simp_all add: var_names_def Let_def split: option.splits)

lemma cleaned_to_env_var_names_cache:
  "var_names_cache s = Some ns \<Longrightarrow> var_names_cache (snd (cleaned_to_env s)) = Some ns"
  by (simp add: cleaned_to_env_def var_names_def Let_def split: option.splits)

lemma reload_var_names_cache:
  "var_names_cache (reload env s) =
     Some (fst (var_names s) @ filter (\<lambda>k. k \<notin> set (fst (var_names s))) (set_of_keys env))"
  by (simp add: reload_def Let_def split_beta cleaned_to_env_var_names_cache)

text \<open>
  C4. Refreshing is monotonic: for every mapping given to \<^verbatim>\<open>reload\<close> and every state,
  the names known after the refresh include the names known before it. After the
  refresh the known names are exactly the names known before together with the keys of
  the mapping.
\<close>

theorem reload_monotonic:
  "set (fst (var_names s)) \<subseteq> set (fst (var_names (reload env s))) \<and>
   set (fst (var_names (reload env s))) = set (fst (var_names s)) \<union> fst ` set env"
proof -
  have "fst (var_names (reload env s)) =
          fst (var_names s) @ filter (\<lambda>k. k \<notin> set (fst (var_names s))) (set_of_keys env)"
    by (simp add: fst_var_names[of "reload env s"] reload_var_names_cache)
  then show ?thesis
    by (auto simp: set_of_keys_def)
qed

theorem reload_monotonic_witness:
  "set (fst (var_names \<lparr>environ = [], var_names_cache = Some [''A'', ''B''],
       accessed_cleaned_to_env = False, cleaned_to_env_cache = None\<rparr>))
   \<subseteq> set (fst (var_names (reload [(''C'', ())]
       \<lparr>environ = [], var_names_cache = Some [''A'', ''B''],
       accessed_cleaned_to_env = False, cleaned_to_env_cache = None\<rparr>))) \<and>
   set (fst (var_names (reload [(''C'', ())]
       \<lparr>environ = [], var_names_cache = Some [''A'', ''B''],
       accessed_cleaned_to_env = False, cleaned_to_env_cache = None\<rparr>))) = {''A'', ''B'', ''C''}"
  using reload_monotonic [of "\<lparr>environ = [], var_names_cache = Some [''A'', ''B''],
       accessed_cleaned_to_env = False, cleaned_to_env_cache = None\<rparr>" "[(''C'', ())]"]
  by (auto simp: fst_var_names)

lemma map_of_update_cleaned:
  "map_of (update_cleaned vs m) k =
     (if k \<in> clean ` set vs then Some (last (filter (\<lambda>v. clean v = k) vs)) else map_of m k)"
proof (induction vs arbitrary: m rule: rev_induct)
  case Nil
  then show ?case by (simp add: update_cleaned_def)
next
  case (snoc v vs)
  have "update_cleaned (vs @ [v]) m = AList.update (clean v) v (update_cleaned vs m)"
    by (simp add: update_cleaned_def)
  then show ?case
    using snoc by (auto simp: update_conv')
qed

lemma os_environ_update_accepted:
  "distinct (map (\<lambda>(k, v). encodekey os_name k) d) \<Longrightarrow>
   None \<notin> snd ` set d \<Longrightarrow>
   (\<And>k v. (k, Some v) \<in> set d \<Longrightarrow> putenv (encodekey os_name k) v = None) \<Longrightarrow>
   fst (os_environ_update os_name putenv d e) = None \<and>
   map_of (snd (os_environ_update os_name putenv d e)) k' =
     (case map_of (map (\<lambda>(k, v). (encodekey os_name k, v)) d) k' of
        Some v \<Rightarrow> v
      | None \<Rightarrow> map_of e k')"
proof (induction os_name putenv d e rule: os_environ_update.induct)
  case (1 os_name putenv e)
  then show ?case by simp
next
  case (2 os_name putenv k kvs e)
  then show ?case by simp
next
  case (3 os_name putenv k v kvs e)
  have accepted: "putenv (encodekey os_name k) v = None"
    using 3(4) by simp
  have fresh_key: "map_of (map (\<lambda>(k, v). (encodekey os_name k, v)) kvs) (encodekey os_name k) = None"
    using 3(2) by (auto simp: map_of_eq_None_iff image_iff split_beta)
  have IH: "fst (os_environ_update os_name putenv kvs (AList.update (encodekey os_name k) v e)) = None \<and>
     map_of (snd (os_environ_update os_name putenv kvs (AList.update (encodekey os_name k) v e))) k' =
       (case map_of (map (\<lambda>(k, v). (encodekey os_name k, v)) kvs) k' of
          Some v \<Rightarrow> v
        | None \<Rightarrow> map_of (AList.update (encodekey os_name k) v e) k')"
    using 3(1) [OF accepted] 3(2,3,4) by simp
  show ?case
    using IH fresh_key by (auto simp: accepted update_conv' split: option.splits)
qed

lemmas env_eval =
  fresh_def reload_def cleaned_to_env_def var_names_def set_of_keys_def update_cleaned_def
  Let_def str_eval

lemma reload_frame_environ: "environ (reload env s) = environ s"
  by (simp add: reload_def cleaned_to_env_def var_names_def Let_def split_beta split: option.splits)


lemma reload_cleaned_not_accessed:
  "\<not> accessed_cleaned_to_env s \<Longrightarrow> cleaned_to_env_cache (reload env s) = cleaned_to_env_cache s"
  by (simp add: reload_def var_names_def Let_def split_beta split: option.splits)

lemma reload_accessed: "accessed_cleaned_to_env (reload env s) = accessed_cleaned_to_env s"
  by (simp add: reload_def cleaned_to_env_def var_names_def Let_def split_beta split: option.splits)

lemma reload_cleaned_accessed:
  "accessed_cleaned_to_env s \<Longrightarrow> cleaned_to_env_cache s = Some m \<Longrightarrow>
   cleaned_to_env_cache (reload env s) =
     Some (update_cleaned (filter (\<lambda>k. k \<notin> set (fst (var_names s))) (set_of_keys env)) m)"
  by (simp add: reload_def cleaned_to_env_def var_names_def Let_def split_beta split: option.splits)

lemma reload_keys_only: "reload (map (\<lambda>(k, v). (k, ())) env) s = reload env s"
proof -
  have "set_of_keys (map (\<lambda>(k, v). (k, ())) env) = set_of_keys env"
    by (simp add: set_of_keys_def split_beta comp_def)
  then show ?thesis by (simp add: reload_def)
qed

text \<open>
  C10, as amended. \<^verbatim>\<open>reload\<close> leaves the live environment and the flag
  \<^verbatim>\<open>_accessed_cleaned_to_env\<close> unchanged and uses only the keys of the mapping it is
  given (replacing every value of the mapping changes nothing). While the cleaned index
  has not been built it stays as it is. Once it has been built, every entry whose key
  is not the cleaned form of a newly seen name is unchanged, and the entry at the
  cleaned form of each newly seen name holds a newly seen name with that cleaned form:
  where a previously known name has the same cleaned form, its entry is replaced.
\<close>

theorem reload_frame:
  "environ (reload env s) = environ s \<and>
   accessed_cleaned_to_env (reload env s) = accessed_cleaned_to_env s \<and>
   reload (map (\<lambda>(k, v). (k, ())) env) s = reload env s \<and>
   (\<not> accessed_cleaned_to_env s \<longrightarrow>
      cleaned_to_env_cache (reload env s) = cleaned_to_env_cache s) \<and>
   (accessed_cleaned_to_env s \<and> cleaned_to_env_cache s = Some m \<longrightarrow>
      (\<exists>m'. cleaned_to_env_cache (reload env s) = Some m' \<and>
         (\<forall>key. key \<notin> clean ` (fst ` set env - set (fst (var_names s))) \<longrightarrow>
                map_of m' key = map_of m key) \<and>
         (\<forall>var \<in> fst ` set env - set (fst (var_names s)).
            \<exists>var' \<in> fst ` set env - set (fst (var_names s)).
              clean var' = clean var \<and> map_of m' (clean var) = Some var')))"
proof (intro conjI impI)
  show "environ (reload env s) = environ s" by (rule reload_frame_environ)
  show "accessed_cleaned_to_env (reload env s) = accessed_cleaned_to_env s" by (rule reload_accessed)
  show "reload (map (\<lambda>(k, v). (k, ())) env) s = reload env s" by (rule reload_keys_only)
  show "cleaned_to_env_cache (reload env s) = cleaned_to_env_cache s" if "\<not> accessed_cleaned_to_env s"
    using that by (rule reload_cleaned_not_accessed)
next
  assume a: "accessed_cleaned_to_env s \<and> cleaned_to_env_cache s = Some m"
  let ?new = "filter (\<lambda>k. k \<notin> set (fst (var_names s))) (set_of_keys env)"
  let ?N = "fst ` set env - set (fst (var_names s))"
  have N: "set ?new = ?N" by (auto simp: set_of_keys_def)
  have c: "cleaned_to_env_cache (reload env s) = Some (update_cleaned ?new m)"
    using a by (simp add: reload_cleaned_accessed)
  have unchanged: "map_of (update_cleaned ?new m) key = map_of m key" if "key \<notin> clean ` ?N" for key
    using that N by (simp add: map_of_update_cleaned)
  have added: "\<exists>var' \<in> ?N. clean var' = clean var \<and> map_of (update_cleaned ?new m) (clean var) = Some var'"
    if "var \<in> ?N" for var
  proof -
    let ?same = "filter (\<lambda>v. clean v = clean var) ?new"
    have ne: "?same \<noteq> []" using that N by (auto simp: filter_empty_conv)
    then have "last ?same \<in> set ?same" by (rule last_in_set)
    then have "last ?same \<in> ?N" "clean (last ?same) = clean var" using N by auto
    moreover have "map_of (update_cleaned ?new m) (clean var) = Some (last ?same)"
      using that N by (simp add: map_of_update_cleaned)
    ultimately show ?thesis by blast
  qed
  show "\<exists>m'. cleaned_to_env_cache (reload env s) = Some m' \<and>
         (\<forall>key. key \<notin> clean ` ?N \<longrightarrow> map_of m' key = map_of m key) \<and>
         (\<forall>var \<in> ?N. \<exists>var' \<in> ?N. clean var' = clean var \<and> map_of m' (clean var) = Some var')"
    using c unchanged added by blast
qed

text \<open>
  The claim C10 as stated fails: with \<^verbatim>\<open>MYVAR\<close> known and indexed under \<^verbatim>\<open>myvar\<close>,
  refreshing with a mapping that has the key \<^verbatim>\<open>MY_VAR\<close> replaces the entry.
\<close>

theorem reload_overwrites_cleaned_counterexample:
  "''MYVAR'' \<in> set (fst (var_names (snd (cleaned_to_env (fresh [(''MYVAR'', ''a'')]))))) \<and>
   map_of (fst (cleaned_to_env (snd (cleaned_to_env (fresh [(''MYVAR'', ''a'')]))))) ''myvar''
     = Some ''MYVAR'' \<and>
   map_of (fst (cleaned_to_env
       (reload [(''MY_VAR'', ''b'')] (snd (cleaned_to_env (fresh [(''MYVAR'', ''a'')])))))) ''myvar''
     = Some ''MY_VAR''"
  by (simp add: env_eval)

theorem reload_frame_witness:
  "(accessed_cleaned_to_env (snd (cleaned_to_env (fresh [(''MYVAR'', ''a'')]))) \<and>
    cleaned_to_env_cache (snd (cleaned_to_env (fresh [(''MYVAR'', ''a'')])))
      = Some [(''myvar'', ''MYVAR'')]) \<and>
   ''myvar'' \<notin> clean ` (fst ` set [(''OTHER'', ''1'')]
      - set (fst (var_names (snd (cleaned_to_env (fresh [(''MYVAR'', ''a'')])))))) \<and>
   (\<exists>m'. cleaned_to_env_cache
           (reload [(''OTHER'', ''1'')] (snd (cleaned_to_env (fresh [(''MYVAR'', ''a'')])))) = Some m' \<and>
         map_of m' ''myvar'' = Some ''MYVAR'' \<and> map_of m' ''other'' = Some ''OTHER'') \<and>
   \<not> accessed_cleaned_to_env (fresh [(''MYVAR'', ''a'')]) \<and>
   cleaned_to_env_cache (reload [(''OTHER'', ''1'')] (fresh [(''MYVAR'', ''a'')])) = None"
proof -
  let ?sa = "snd (cleaned_to_env (fresh [(''MYVAR'', ''a'')]))"
  let ?sb = "fresh [(''MYVAR'', ''a'')]"
  let ?env = "[(''OTHER'', ''1'')]"
  have sa: "?sa = \<lparr>environ = [(''MYVAR'', ''a'')], var_names_cache = Some [''MYVAR''],
              accessed_cleaned_to_env = True, cleaned_to_env_cache = Some [(''myvar'', ''MYVAR'')]\<rparr>"
    by (simp add: env_eval)
  have h1: "accessed_cleaned_to_env ?sa \<and> cleaned_to_env_cache ?sa = Some [(''myvar'', ''MYVAR'')]"
    by (simp add: sa)
  have names: "fst (var_names ?sa) = [''MYVAR'']"
    by (simp add: sa var_names_def)
  have N: "fst ` set ?env - set (fst (var_names ?sa)) = {''OTHER''}"
    by (simp add: names)
  have cl: "clean ''OTHER'' = ''other''"
    by (simp add: str_eval)
  have h2: "''myvar'' \<notin> clean ` (fst ` set ?env - set (fst (var_names ?sa)))"
    unfolding N by (simp add: cl)
  have h3: "\<not> accessed_cleaned_to_env ?sb"
    by (simp add: fresh_def)
  from reload_frame [of ?env ?sa "[(''myvar'', ''MYVAR'')]"] h1
  obtain m' where m': "cleaned_to_env_cache (reload ?env ?sa) = Some m'"
      "\<forall>key. key \<notin> clean ` (fst ` set ?env - set (fst (var_names ?sa))) \<longrightarrow>
            map_of m' key = map_of [(''myvar'', ''MYVAR'')] key"
      "\<forall>var \<in> fst ` set ?env - set (fst (var_names ?sa)).
         \<exists>var' \<in> fst ` set ?env - set (fst (var_names ?sa)).
           clean var' = clean var \<and> map_of m' (clean var) = Some var'"
    by blast
  from m'(2) h2 have "map_of m' ''myvar'' = Some ''MYVAR''"
    by simp
  moreover from m'(3) have "map_of m' ''other'' = Some ''OTHER''"
    unfolding N by (simp add: cl)
  moreover from reload_frame [of ?env ?sb] h3
  have "cleaned_to_env_cache (reload ?env ?sb) = None"
    by (simp add: fresh_def)
  ultimately show ?thesis
    using h1 h2 h3 m'(1) by blast
qed

section \<open>Properties of \<^verbatim>\<open>Env.update_with_dotenv\<close>\<close>

lemma posix_putenv_accepts:
  "name \<noteq> [] \<Longrightarrow> CHR ''='' \<notin> set name \<Longrightarrow> CHR 0x00 \<notin> set name \<Longrightarrow> CHR 0x00 \<notin> set value \<Longrightarrow>
   posix_putenv name value = None"
  by (simp add: posix_putenv_def)

text \<open>
  An overlay with a name that the platform refuses: the items before it are stored, the
  call raises, and all the names of the overlay are cached.
\<close>

lemma update_with_dotenv_illegal_name:
  "update_with_dotenv ''posix'' posix_putenv (\<lambda>f. []) (Path ''.env'')
     (Some [(''OKAY'', Some ''1''), (''B=C'', Some ''2''), (''LATER'', Some ''3'')]) (fresh []) =
   (Inl ValueError,
    \<lparr>environ = [(''OKAY'', ''1'')], var_names_cache = Some [''OKAY'', ''B=C'', ''LATER''],
     accessed_cleaned_to_env = False, cleaned_to_env_cache = None\<rparr>)"
  by (simp add: update_with_dotenv_def posix_putenv_def encodekey_def env_eval)

text \<open>
  C1, as amended. Let the overlay mapping, given directly or read from the files, have
  string values, let the platform's \<^verbatim>\<open>putenv\<close> accept each of its items, and let its keys
  stay distinct when they are encoded (on \<^verbatim>\<open>nt\<close> the keys are upper-cased). Then
  \<^verbatim>\<open>update_with_dotenv\<close> returns normally and afterwards every key of the overlay has,
  under its encoded form, the overlay's value in the live environment, also when it
  had a live value before (the overlay replaces it); every other key keeps its live
  value; and every key of the overlay is a known name. So a key present only in the
  overlay becomes available. Where \<^verbatim>\<open>os.name\<close> is not \<^verbatim>\<open>nt\<close> the encoded form of a key is
  the key.
\<close>

theorem update_with_dotenv_overlay_wins:
  assumes "(case dotenv_values_arg of None \<Rightarrow> dotenv_values read_dotenv files | Some d' \<Rightarrow> Inr d')
             = Inr d"
    and "distinct (map (\<lambda>(k, v). encodekey os_name k) d)"
    and "None \<notin> snd ` set d"
    and "\<And>k v. (k, Some v) \<in> set d \<Longrightarrow> putenv (encodekey os_name k) v = None"
  shows "fst (update_with_dotenv os_name putenv read_dotenv files dotenv_values_arg s) = Inr () \<and>
         map_of (environ (snd (update_with_dotenv os_name putenv read_dotenv files
                                 dotenv_values_arg s))) k =
           (case map_of (map (\<lambda>(k, v). (encodekey os_name k, v)) d) k of
              Some v \<Rightarrow> v
            | None \<Rightarrow> map_of (environ s) k) \<and>
         (os_name \<noteq> ''nt'' \<longrightarrow>
            map_of (environ (snd (update_with_dotenv os_name putenv read_dotenv files
                                    dotenv_values_arg s))) k =
              (case map_of d k of Some v \<Rightarrow> v | None \<Rightarrow> map_of (environ s) k)) \<and>
         fst ` set d \<subseteq> set (fst (var_names (snd (update_with_dotenv os_name putenv read_dotenv
                                                     files dotenv_values_arg s))))"
proof -
  let ?s1 = "reload d s"
  let ?r = "os_environ_update os_name putenv d (environ ?s1)"
  have res: "update_with_dotenv os_name putenv read_dotenv files dotenv_values_arg s =
          ((case fst ?r of None \<Rightarrow> Inr () | Some err \<Rightarrow> Inl err), ?s1\<lparr>environ := snd ?r\<rparr>)"
    using assms(1) by (simp add: update_with_dotenv_def Let_def split_beta)
  have ok: "fst ?r = None"
    and "map_of (snd ?r) k =
      (case map_of (map (\<lambda>(k, v). (encodekey os_name k, v)) d) k of
         Some v \<Rightarrow> v
       | None \<Rightarrow> map_of (environ ?s1) k)"
    using os_environ_update_accepted [where putenv = putenv, OF assms(2,3,4)] by blast+
  then have stored: "map_of (snd ?r) k =
      (case map_of (map (\<lambda>(k, v). (encodekey os_name k, v)) d) k of
         Some v \<Rightarrow> v
       | None \<Rightarrow> map_of (environ s) k)"
    by (simp add: reload_frame_environ split: option.splits)
  have plain: "map (\<lambda>(k, v). (encodekey os_name k, v)) d = d" if "os_name \<noteq> ''nt''"
    using that by (simp add: encodekey_def split_beta)
  have names: "fst ` set d \<subseteq> set (fst (var_names (?s1\<lparr>environ := snd ?r\<rparr>)))"
    by (simp add: fst_var_names reload_var_names_cache) (auto simp: set_of_keys_def)
  show ?thesis
    using stored plain names by (simp add: res ok)
qed

theorem update_with_dotenv_overlay_wins_witness:
  "fst (update_with_dotenv ''posix'' posix_putenv
         (\<lambda>f. if f = ''.env'' then [(''KEY'', Some ''file''), (''NEW'', Some ''n'')] else [])
         (Path ''.env'') None (fresh [(''KEY'', ''live''), (''HOME'', ''h'')])) = Inr () \<and>
   map (map_of (environ (snd (update_with_dotenv ''posix'' posix_putenv
         (\<lambda>f. if f = ''.env'' then [(''KEY'', Some ''file''), (''NEW'', Some ''n'')] else [])
         (Path ''.env'') None (fresh [(''KEY'', ''live''), (''HOME'', ''h'')])))))
       [''KEY'', ''NEW'', ''HOME''] = [Some ''file'', Some ''n'', Some ''h''] \<and>
   map (map_of (environ (snd (update_with_dotenv ''nt'' (\<lambda>name value. None) (\<lambda>f. []) (Path ''.env'')
         (Some [(''key'', Some ''file'')]) (fresh [(''KEY'', ''live'')])))))
       [''KEY'', ''key''] = [Some ''file'', None]"
proof -
  let ?rd = "\<lambda>f. if f = ''.env'' then [(''KEY'', Some ''file''), (''NEW'', Some ''n'')] else []"
  let ?d = "[(''KEY'', Some ''file''), (''NEW'', Some ''n'')]"
  have h1: "(case None of None \<Rightarrow> dotenv_values ?rd (Path ''.env'') | Some d' \<Rightarrow> Inr d') = Inr ?d"
    by (simp add: dotenv_values_def dict_update_def)
  have h2: "distinct (map (\<lambda>(k, v). encodekey ''posix'' k) ?d)"
    by (simp add: encodekey_def)
  have h3: "None \<notin> snd ` set ?d"
    by simp
  have h4: "posix_putenv (encodekey ''posix'' k) v = None" if "(k, Some v) \<in> set ?d" for k v
    using that by (auto simp: encodekey_def intro!: posix_putenv_accepts)
  note w = update_with_dotenv_overlay_wins [where putenv = posix_putenv
      and s = "fresh [(''KEY'', ''live''), (''HOME'', ''h'')]", OF h1 h2 h3 h4]
  let ?n = "[(''key'', Some ''file'')]"
  have n1: "(case Some ?n of None \<Rightarrow> dotenv_values (\<lambda>f. []) (Path ''.env'') | Some d' \<Rightarrow> Inr d')
      = Inr ?n"
    by simp
  have up: "upper ''key'' = ''KEY''"
    by (simp add: str_eval)
  have n2: "distinct (map (\<lambda>(k, v). encodekey ''nt'' k) ?n)"
    by simp
  have n3: "None \<notin> snd ` set ?n"
    by simp
  note n = update_with_dotenv_overlay_wins [where putenv = "\<lambda>name value. None"
      and s = "fresh [(''KEY'', ''live'')]", OF n1 n2 n3]
  show ?thesis
    using w [of "''KEY''"] w [of "''NEW''"] w [of "''HOME''"] n [of "''KEY''"] n [of "''key''"]
    by (simp add: fresh_def encodekey_def up)
qed

text \<open>
  The claim C1 as stated fails: with \<^verbatim>\<open>KEY=live\<close> in the live environment and
  \<^verbatim>\<open>KEY=file\<close> in the overlay file, the live value afterwards is \<^verbatim>\<open>file\<close>.
\<close>

theorem update_with_dotenv_keeps_live_counterexample:
  "map_of (environ (fresh [(''KEY'', ''live'')])) ''KEY'' = Some ''live'' \<and>
   dotenv_values (\<lambda>f. if f = ''.env'' then [(''KEY'', Some ''file'')] else []) (Path ''.env'')
     = Inr [(''KEY'', Some ''file'')] \<and>
   map_of (environ (snd (update_with_dotenv ''posix'' posix_putenv
       (\<lambda>f. if f = ''.env'' then [(''KEY'', Some ''file'')] else [])
       (Path ''.env'') None (fresh [(''KEY'', ''live'')])))) ''KEY'' = Some ''file''"
  by (simp add: update_with_dotenv_def dotenv_values_def dict_update_def posix_putenv_def
        encodekey_def env_eval)

section \<open>Properties of the lookups\<close>

lemma var_names_again:
  "var_names (snd (var_names s)) = (fst (var_names s), snd (var_names s))"
  by (simp add: var_names_def Let_def split: option.splits)

lemma environ_getitem_var_names:
  "environ_getitem k (snd (var_names s)) = environ_getitem k s"
  by (simp add: environ_getitem_def var_names_frame)

lemma lookup_exact_posix_loop_find:
  "fst (lookup_exact_posix_loop vs s) =
     (case find (\<lambda>v. v \<in> set (fst (var_names s))) vs of
        None \<Rightarrow> Inr MISSING
      | Some v \<Rightarrow> environ_getitem v s)"
proof (induction vs arbitrary: s)
  case Nil
  then show ?case by simp
next
  case (Cons v vs)
  show ?case
    by (simp add: split_beta Let_def Cons.IH var_names_again environ_getitem_var_names
          split: option.splits)
qed

lemma lookup_exact_nt_loop_find:
  "fst (lookup_exact_nt_loop vs s) =
     (case find (\<lambda>v. upper v \<in> set (fst (var_names s))) vs of
        None \<Rightarrow> Inr MISSING
      | Some v \<Rightarrow> environ_getitem (upper v) s)"
proof (induction vs arbitrary: s)
  case Nil
  then show ?case by simp
next
  case (Cons v vs)
  show ?case
    by (simp add: split_beta Let_def Cons.IH var_names_again environ_getitem_var_names
          split: option.splits)
qed

lemmas lookup_eval =
  lookup_exact_def lookup_exact_nt_def lookup_exact_posix_def environ_getitem_def
  try_cleaned_def with_screaming_snake_case_def with_snake_case_def
  with_pascal_or_camel_case_def env_eval

text \<open>
  C5. \<^verbatim>\<open>lookup_exact\<close> depends on the platform: where \<^verbatim>\<open>os.name\<close> is \<^verbatim>\<open>nt\<close> the name,
  or each name of a collection, is upper-cased before it is compared with the known
  names, and elsewhere it is compared as it is. The result is the live value
  \<^verbatim>\<open>environ[name]\<close> of the first name of the argument that is known, in the order of the
  collection, and \<^verbatim>\<open>MISSING\<close> when none is. The three examples of the claim follow.
\<close>

theorem lookup_exact_platform:
  "fst (lookup_exact os_name (Str v) s) =
     (let v' = (if os_name = ''nt'' then upper v else v)
      in if v' \<in> set (fst (var_names s)) then environ_getitem v' s else Inr MISSING) \<and>
   fst (lookup_exact os_name (Collection vs) s) =
     (case find (\<lambda>v. (if os_name = ''nt'' then upper v else v) \<in> set (fst (var_names s))) vs of
        None \<Rightarrow> Inr MISSING
      | Some v \<Rightarrow> environ_getitem (if os_name = ''nt'' then upper v else v) s) \<and>
   fst (lookup_exact ''nt'' (Str ''foo'') (fresh [(''FOO'', ''bar'')])) = Inr (Found ''bar'') \<and>
   fst (lookup_exact ''posix'' (Str ''Foo'') (fresh [(''Foo'', ''bar'')])) = Inr (Found ''bar'') \<and>
   fst (lookup_exact ''posix'' (Str ''Foo'') (fresh [(''FOO'', ''bar'')])) = Inr MISSING"
proof (intro conjI)
  show "fst (lookup_exact os_name (Str v) s) =
     (let v' = (if os_name = ''nt'' then upper v else v)
      in if v' \<in> set (fst (var_names s)) then environ_getitem v' s else Inr MISSING)"
    by (simp add: lookup_exact_def lookup_exact_nt_def lookup_exact_posix_def Let_def split_beta
          environ_getitem_var_names)
  show "fst (lookup_exact os_name (Collection vs) s) =
     (case find (\<lambda>v. (if os_name = ''nt'' then upper v else v) \<in> set (fst (var_names s))) vs of
        None \<Rightarrow> Inr MISSING
      | Some v \<Rightarrow> environ_getitem (if os_name = ''nt'' then upper v else v) s)"
    by (simp add: lookup_exact_def lookup_exact_nt_def lookup_exact_posix_def
          lookup_exact_nt_loop_find lookup_exact_posix_loop_find split: option.splits)
  show "fst (lookup_exact ''nt'' (Str ''foo'') (fresh [(''FOO'', ''bar'')])) = Inr (Found ''bar'')"
    by (simp add: lookup_eval)
  show "fst (lookup_exact ''posix'' (Str ''Foo'') (fresh [(''Foo'', ''bar'')])) = Inr (Found ''bar'')"
    by (simp add: lookup_eval)
  show "fst (lookup_exact ''posix'' (Str ''Foo'') (fresh [(''FOO'', ''bar'')])) = Inr MISSING"
    by (simp add: lookup_eval)
qed

theorem lookup_exact_platform_witness:
  "fst (lookup_exact ''posix'' (Collection [''a'', ''B'', ''C''])
          (fresh [(''C'', ''1''), (''B'', ''2''), (''A'', ''3'')])) = Inr (Found ''2'') \<and>
   fst (lookup_exact ''nt'' (Collection [''x'', ''a'', ''B''])
          (fresh [(''C'', ''1''), (''B'', ''2''), (''A'', ''3'')])) = Inr (Found ''3'')"
  using lookup_exact_platform [of "''posix''" "''a''" "fresh [(''C'', ''1''), (''B'', ''2''), (''A'', ''3'')]"
          "[''a'', ''B'', ''C'']"]
        lookup_exact_platform [of "''nt''" "''a''" "fresh [(''C'', ''1''), (''B'', ''2''), (''A'', ''3'')]"
          "[''x'', ''a'', ''B'']"]
  by (simp add: fst_var_names environ_getitem_def fresh_def set_of_keys_def str_eval)









text \<open>
  C2 says that no resolution raises on a miss, also when the cached names hold a name
  that is absent from the live environment. The code reads \<^verbatim>\<open>environ[name]\<close> after
  finding the name among the cached names only: after \<^verbatim>\<open>Env.reload({'X': '1'})\<close> on an
  empty environment the name \<^verbatim>\<open>X\<close> is cached and not live, and every resolution of it
  raises \<^verbatim>\<open>KeyError\<close>.
\<close>

theorem lookup_stale_name_raises:
  "environ (reload [(''X'', ''1'')] (fresh [])) = [] \<and>
   fst (var_names (reload [(''X'', ''1'')] (fresh []))) = [''X''] \<and>
   fst (lookup_exact ''posix'' (Str ''X'') (reload [(''X'', ''1'')] (fresh []))) = Inl KeyError \<and>
   fst (lookup_exact ''posix'' (Collection [''A'', ''X'']) (reload [(''X'', ''1'')] (fresh [])))
     = Inl KeyError \<and>
   fst (lookup_exact ''nt'' (Str ''x'') (reload [(''X'', ''1'')] (fresh []))) = Inl KeyError \<and>
   fst (try_cleaned ''x'' (reload [(''X'', ''1'')] (fresh []))) = Inl KeyError \<and>
   fst (with_screaming_snake_case ''x'' (reload [(''X'', ''1'')] (fresh []))) = Inl KeyError \<and>
   fst (with_snake_case ''x'' (reload [(''X'', ''1'')] (fresh []))) = Inl KeyError \<and>
   fst (with_pascal_or_camel_case spec_to_snake_case ''X'' (reload [(''X'', ''1'')] (fresh [])))
     = Inl KeyError"
  by (simp add: lookup_eval spec_to_snake_case_def)

section \<open>Properties of the diagnostics\<close>

lemma update_update_same: "AList.update k v (AList.update k v al) = AList.update k v al"
  by (induction al) auto

lemma class_name_pe_kwargs: "class_name (e\<lparr>pe_kwargs := k\<rparr>) = class_name e"
  by (simp add: class_name_def split: option.splits)

lemma ParseError_message_again:
  "ParseError_message py (snd (ParseError_message py e)) = ParseError_message py e"
proof (cases "pe_json_object e")
  case None
  then show ?thesis
    by (simp add: ParseError_message_def)
next
  case (Some j)
  show ?thesis
  proof (cases "j = []")
    case True
    with Some show ?thesis
      by (simp add: ParseError_message_def)
  next
    case False
    show ?thesis
    proof (cases "json_dumps py j")
      case (Inl err)
      with Some False show ?thesis
        by (simp add: ParseError_message_def)
    next
      case (Inr dumped)
      with Some False show ?thesis
        by (simp add: ParseError_message_def class_name_pe_kwargs update_update_same)
    qed
  qed
qed

lemma message_again: "message py (snd (message py e)) = message py e"
proof (cases e)
  case (Is_ParseError x)
  then show ?thesis
    using ParseError_message_again [of py x] by (simp add: split_beta)
qed simp_all

lemma message_reads:
  "((\<lambda>x. snd (message py x)) ^^ n) e = (if n = 0 then e else snd (message py e))"
  by (induction n) (simp_all add: message_again)

text \<open>
  C8. The message of a diagnostic is stable: however many times the property
  \<^verbatim>\<open>message\<close> of an error object has been read before, the next read gives the message
  that the first read gave; and two objects built from the same inputs, each read any
  number of times before, give the same message. Only \<^verbatim>\<open>ParseError.message\<close> changes
  its object (it stores the dumped \<^verbatim>\<open>json_object\<close> among the keyword arguments), and it
  changes it before it prints the keyword arguments, to the same value at every read.
  The constructors and the messages are functions of their arguments, where Python's
  \<^verbatim>\<open>repr\<close>, \<^verbatim>\<open>str\<close> and \<^verbatim>\<open>json.dumps\<close> are functions too.
\<close>

theorem message_stable:
  "fst (message py (((\<lambda>x. snd (message py x)) ^^ n) e)) = fst (message py e) \<and>
   fst (message py (((\<lambda>x. snd (message py x)) ^^ n) e)) =
     fst (message py (((\<lambda>x. snd (message py x)) ^^ m) e))"
  by (simp add: message_reads message_again)

theorem message_stable_witness:
  "snd (message example_python (Is_ParseError
         (ParseError_init example_python (PyStr ''bad'') (PyObj 1) ''str'' (Some ''C'') (Some ''x'')
            (Some [(''x'', PyObj 1)]) [])))
     \<noteq> Is_ParseError
         (ParseError_init example_python (PyStr ''bad'') (PyObj 1) ''str'' (Some ''C'') (Some ''x'')
            (Some [(''x'', PyObj 1)]) []) \<and>
   fst (message example_python (snd (message example_python (Is_ParseError
         (ParseError_init example_python (PyStr ''bad'') (PyObj 1) ''str'' (Some ''C'') (Some ''x'')
            (Some [(''x'', PyObj 1)]) []))))) =
   fst (message example_python (Is_ParseError
         (ParseError_init example_python (PyStr ''bad'') (PyObj 1) ''str'' (Some ''C'') (Some ''x'')
            (Some [(''x'', PyObj 1)]) [])))"
proof -
  let ?e = "Is_ParseError
         (ParseError_init example_python (PyStr ''bad'') (PyObj 1) ''str'' (Some ''C'') (Some ''x'')
            (Some [(''x'', PyObj 1)]) [])"
  have "snd (message example_python ?e) \<noteq> ?e"
    by (simp add: ParseError_message_def ParseError_init_def example_python_def)
  moreover have "fst (message example_python (snd (message example_python ?e))) =
      fst (message example_python ?e)"
    using message_stable [of example_python "Suc 0" ?e 0] by simp
  ultimately show ?thesis by blast
qed

lemma find_Some_nonempty:
  "[] \<notin> set xs \<Longrightarrow> (case find P xs of None \<Rightarrow> a | Some f \<Rightarrow> if f \<noteq> [] then b else a) =
     (if \<exists>f \<in> set xs. P f then b else a)"
  by (induction xs) auto

lemma MissingFields_init_missing:
  "mf_missing_fields (MissingFields_init py normalize' base_err obj cls cls_kwargs cls_fields kwargs) =
     map f_name (filter (\<lambda>f. f_name f \<notin> fst ` set cls_kwargs \<and> f_default f = None \<and>
        f_default_factory f = None) cls_fields)"
  by (simp add: MissingFields_init_def Let_def)

lemma MissingFields_init_kwargs:
  "mf_kwargs (MissingFields_init py normalize' base_err obj cls cls_kwargs cls_fields kwargs) =
     (case find (\<lambda>f. normalize' f \<in> normalize' ` fst ` set obj)
             (mf_missing_fields
               (MissingFields_init py normalize' base_err obj cls cls_kwargs cls_fields kwargs)) of
        None \<Rightarrow> kwargs
      | Some f \<Rightarrow>
          if f \<noteq> [] then
            AList.update ''resolution''
              (PyStr (''For more details, please see ''
                      @ ''https://github.com/rnag/dataclass-wizard/issues/54''))
              (AList.update ''key transform'' (PyStr (key_transform_name py cls @ ''()'')) kwargs)
          else kwargs)"
  by (simp add: MissingFields_init_def Let_def image_image)

lemma MissingFields_init_attributes:
  "mf_obj (MissingFields_init py normalize' base_err obj cls cls_kwargs cls_fields kwargs) = obj"
  "mf_fields (MissingFields_init py normalize' base_err obj cls cls_kwargs cls_fields kwargs)
     = map fst cls_kwargs"
  "mf_base_error (MissingFields_init py normalize' base_err obj cls cls_kwargs cls_fields kwargs)
     = base_err"
  "mf_class_name (MissingFields_init py normalize' base_err obj cls cls_kwargs cls_fields kwargs)
     = type_name py cls"
  by (simp_all add: MissingFields_init_def Let_def)

lemma MissingFields_message_init:
  "MissingFields_message py
     (MissingFields_init py normalize' base_err obj cls cls_kwargs cls_fields kwargs) =
   (case json_dumps py obj of
      Inl err \<Rightarrow> Inl err
    | Inr json_string \<Rightarrow>
        Inr (append_kwargs (str py)
              (MissingFields_TEMPLATE (type_name py cls) (repr_list py (map fst cls_kwargs))
                 (repr_list py (mf_missing_fields
                    (MissingFields_init py normalize' base_err obj cls cls_kwargs cls_fields kwargs)))
                 json_string (str py base_err))
              (mf_kwargs
                 (MissingFields_init py normalize' base_err obj cls cls_kwargs cls_fields kwargs))))"
  by (simp add: MissingFields_message_def MissingFields_init_attributes split: sum.splits)

lemma append_kwargs_hint:
  "append_kwargs (str py) msg [(''key transform'', PyStr t), (''resolution'', PyStr r)] =
   msg @ sep @ ''key transform: '' @ t @ sep @ ''resolution: '' @ r"
  by (simp add: append_kwargs_def str_def)

lemma append_kwargs_empty: "append_kwargs fmt msg [] = msg"
  by (simp add: append_kwargs_def)

text \<open>
  C3, as amended. For declared fields with non-empty names, the missing fields of
  \<^verbatim>\<open>MissingFields\<close> are exactly the fields without a default and without a default
  factory that are not among the keys of the supplied keyword arguments. The two hint
  entries (the key transform and the pointer to the documentation) are added to the
  trailing items of the error if and only if the normalized name of some missing field
  equals the normalized form of some key of the input object, and the message is the
  filled template followed by the trailing items: an error built without further
  keyword arguments has the message that ends with the two hint lines if the condition
  holds, and the filled template alone if not. For the supplied \<^verbatim>\<open>{"myEnvVar": 1}\<close> and
  the required fields \<^verbatim>\<open>my_env_var\<close> and \<^verbatim>\<open>other\<close>, both fields are missing and the message
  ends with the hint.
\<close>

theorem MissingFields_init_missing_and_hint:
  assumes "[] \<notin> f_name ` set cls_fields"
  shows
   "(let e = MissingFields_init py normalize' base_err obj cls cls_kwargs cls_fields kwargs;
         hint = (\<exists>f \<in> set (mf_missing_fields e). \<exists>key \<in> fst ` set obj.
                   normalize' f = normalize' key);
         trailing =
           (if hint
            then AList.update ''resolution''
                   (PyStr (''For more details, please see ''
                           @ ''https://github.com/rnag/dataclass-wizard/issues/54''))
                   (AList.update ''key transform'' (PyStr (key_transform_name py cls @ ''()''))
                      kwargs)
            else kwargs)
     in set (mf_missing_fields e) =
          {f_name f |f. f \<in> set cls_fields \<and> f_default f = None \<and> f_default_factory f = None}
            - fst ` set cls_kwargs \<and>
        mf_kwargs e = trailing \<and>
        MissingFields_message py e =
          (case json_dumps py obj of
             Inl err \<Rightarrow> Inl err
           | Inr json_string \<Rightarrow>
               Inr (append_kwargs (str py)
                     (MissingFields_TEMPLATE (type_name py cls) (repr_list py (map fst cls_kwargs))
                        (repr_list py (mf_missing_fields e)) json_string (str py base_err))
                     trailing))) \<and>
    (let e = MissingFields_init py normalize' base_err obj cls cls_kwargs cls_fields [];
         hint = (\<exists>f \<in> set (mf_missing_fields e). \<exists>key \<in> fst ` set obj.
                   normalize' f = normalize' key)
     in \<forall>json_string. json_dumps py obj = Inr json_string \<longrightarrow>
          MissingFields_message py e =
            Inr (MissingFields_TEMPLATE (type_name py cls) (repr_list py (map fst cls_kwargs))
                   (repr_list py (mf_missing_fields e)) json_string (str py base_err)
                 @ (if hint
                    then sep @ ''key transform: '' @ key_transform_name py cls @ ''()''
                         @ sep @ ''resolution: '' @ ''For more details, please see ''
                         @ ''https://github.com/rnag/dataclass-wizard/issues/54''
                    else []))) \<and>
    (let e = MissingFields_init py spec_normalize base_err [(''myEnvVar'', PyObj one)] cls
               [(''myEnvVar'', PyObj one)]
               [\<lparr>f_name = ''my_env_var'', f_default = None, f_default_factory = None\<rparr>,
                \<lparr>f_name = ''other'', f_default = None, f_default_factory = None\<rparr>] []
     in mf_missing_fields e = [''my_env_var'', ''other''] \<and>
        map fst (mf_kwargs e) = [''key transform'', ''resolution''] \<and>
        (\<forall>json_string. json_dumps py [(''myEnvVar'', PyObj one)] = Inr json_string \<longrightarrow>
           MissingFields_message py e =
             Inr (MissingFields_TEMPLATE (type_name py cls) (repr_list py [''myEnvVar''])
                    (repr_list py [''my_env_var'', ''other'']) json_string (str py base_err)
                  @ sep @ ''key transform: '' @ key_transform_name py cls @ ''()''
                  @ sep @ ''resolution: '' @ ''For more details, please see ''
                  @ ''https://github.com/rnag/dataclass-wizard/issues/54'')))"
proof -
  have general: "set (mf_missing_fields e) =
          {f_name f |f. f \<in> set cls_fields \<and> f_default f = None \<and> f_default_factory f = None}
            - fst ` set cls_kwargs \<and>
        mf_kwargs e =
          (if \<exists>f \<in> set (mf_missing_fields e). \<exists>key \<in> fst ` set obj. normalize' f = normalize' key
           then AList.update ''resolution''
                  (PyStr (''For more details, please see ''
                          @ ''https://github.com/rnag/dataclass-wizard/issues/54''))
                  (AList.update ''key transform'' (PyStr (key_transform_name py cls @ ''()'')) kw)
           else kw)"
    if e: "e = MissingFields_init py normalize' base_err obj cls cls_kwargs cls_fields kw" for e kw
  proof
    show "set (mf_missing_fields e) =
          {f_name f |f. f \<in> set cls_fields \<and> f_default f = None \<and> f_default_factory f = None}
            - fst ` set cls_kwargs"
      unfolding e by (auto simp: MissingFields_init_missing)
    have "[] \<notin> set (mf_missing_fields e)"
      unfolding e using assms by (auto simp: MissingFields_init_missing)
    then have "mf_kwargs e =
          (if \<exists>f \<in> set (mf_missing_fields e). normalize' f \<in> normalize' ` fst ` set obj
           then AList.update ''resolution''
                  (PyStr (''For more details, please see ''
                          @ ''https://github.com/rnag/dataclass-wizard/issues/54''))
                  (AList.update ''key transform'' (PyStr (key_transform_name py cls @ ''()'')) kw)
           else kw)"
      unfolding e MissingFields_init_kwargs by (rule find_Some_nonempty)
    moreover have "(\<exists>f \<in> set (mf_missing_fields e). normalize' f \<in> normalize' ` fst ` set obj) =
       (\<exists>f \<in> set (mf_missing_fields e). \<exists>key \<in> fst ` set obj. normalize' f = normalize' key)"
      by blast
    ultimately show "mf_kwargs e =
          (if \<exists>f \<in> set (mf_missing_fields e). \<exists>key \<in> fst ` set obj. normalize' f = normalize' key
           then AList.update ''resolution''
                  (PyStr (''For more details, please see ''
                          @ ''https://github.com/rnag/dataclass-wizard/issues/54''))
                  (AList.update ''key transform'' (PyStr (key_transform_name py cls @ ''()'')) kw)
           else kw)"
      by simp
  qed
  have first: "let e = MissingFields_init py normalize' base_err obj cls cls_kwargs cls_fields kwargs;
         hint = (\<exists>f \<in> set (mf_missing_fields e). \<exists>key \<in> fst ` set obj.
                   normalize' f = normalize' key);
         trailing =
           (if hint
            then AList.update ''resolution''
                   (PyStr (''For more details, please see ''
                           @ ''https://github.com/rnag/dataclass-wizard/issues/54''))
                   (AList.update ''key transform'' (PyStr (key_transform_name py cls @ ''()''))
                      kwargs)
            else kwargs)
     in set (mf_missing_fields e) =
          {f_name f |f. f \<in> set cls_fields \<and> f_default f = None \<and> f_default_factory f = None}
            - fst ` set cls_kwargs \<and>
        mf_kwargs e = trailing \<and>
        MissingFields_message py e =
          (case json_dumps py obj of
             Inl err \<Rightarrow> Inl err
           | Inr json_string \<Rightarrow>
               Inr (append_kwargs (str py)
                     (MissingFields_TEMPLATE (type_name py cls) (repr_list py (map fst cls_kwargs))
                        (repr_list py (mf_missing_fields e)) json_string (str py base_err))
                     trailing))"
    unfolding Let_def
    using general [OF refl, of kwargs]
    by (simp only: MissingFields_message_init simp_thms)
  have second: "let e = MissingFields_init py normalize' base_err obj cls cls_kwargs cls_fields [];
         hint = (\<exists>f \<in> set (mf_missing_fields e). \<exists>key \<in> fst ` set obj.
                   normalize' f = normalize' key)
     in \<forall>json_string. json_dumps py obj = Inr json_string \<longrightarrow>
          MissingFields_message py e =
            Inr (MissingFields_TEMPLATE (type_name py cls) (repr_list py (map fst cls_kwargs))
                   (repr_list py (mf_missing_fields e)) json_string (str py base_err)
                 @ (if hint
                    then sep @ ''key transform: '' @ key_transform_name py cls @ ''()''
                         @ sep @ ''resolution: '' @ ''For more details, please see ''
                         @ ''https://github.com/rnag/dataclass-wizard/issues/54''
                    else []))"
    unfolding Let_def
    using general [OF refl, of "[]"]
    by (simp add: MissingFields_message_init append_kwargs_hint append_kwargs_empty)
  let ?x = "MissingFields_init py spec_normalize base_err [(''myEnvVar'', PyObj one)] cls
               [(''myEnvVar'', PyObj one)]
               [\<lparr>f_name = ''my_env_var'', f_default = None, f_default_factory = None\<rparr>,
                \<lparr>f_name = ''other'', f_default = None, f_default_factory = None\<rparr>] []"
  have ex: "mf_missing_fields ?x = [''my_env_var'', ''other'']"
    by (simp add: MissingFields_init_missing)
  have collide: "spec_normalize ''my_env_var'' = spec_normalize ''myEnvVar''"
    by (simp add: spec_normalize_def str_eval)
  have ex2: "mf_kwargs ?x =
      AList.update ''resolution''
        (PyStr (''For more details, please see ''
                @ ''https://github.com/rnag/dataclass-wizard/issues/54''))
        (AList.update ''key transform'' (PyStr (key_transform_name py cls @ ''()'')) [])"
    unfolding MissingFields_init_kwargs ex using collide by simp
  have ex3: "MissingFields_message py ?x =
             Inr (MissingFields_TEMPLATE (type_name py cls) (repr_list py [''myEnvVar''])
                    (repr_list py [''my_env_var'', ''other'']) json_string (str py base_err)
                  @ sep @ ''key transform: '' @ key_transform_name py cls @ ''()''
                  @ sep @ ''resolution: '' @ ''For more details, please see ''
                  @ ''https://github.com/rnag/dataclass-wizard/issues/54'')"
    if "json_dumps py [(''myEnvVar'', PyObj one)] = Inr json_string" for json_string
    unfolding MissingFields_message_init ex ex2 using that
    by (simp add: append_kwargs_hint)
  have third: "let e = ?x
     in mf_missing_fields e = [''my_env_var'', ''other''] \<and>
        map fst (mf_kwargs e) = [''key transform'', ''resolution''] \<and>
        (\<forall>json_string. json_dumps py [(''myEnvVar'', PyObj one)] = Inr json_string \<longrightarrow>
           MissingFields_message py e =
             Inr (MissingFields_TEMPLATE (type_name py cls) (repr_list py [''myEnvVar''])
                    (repr_list py [''my_env_var'', ''other'']) json_string (str py base_err)
                  @ sep @ ''key transform: '' @ key_transform_name py cls @ ''()''
                  @ sep @ ''resolution: '' @ ''For more details, please see ''
                  @ ''https://github.com/rnag/dataclass-wizard/issues/54''))"
    unfolding Let_def using ex ex3 by (simp add: ex2)
  from first second third show ?thesis
    by (intro conjI)
qed

theorem MissingFields_init_missing_and_hint_witness:
  "[] \<notin> f_name ` set
      [\<lparr>f_name = ''my_env_var'', f_default = None, f_default_factory = None\<rparr>,
       \<lparr>f_name = ''other'', f_default = None, f_default_factory = None\<rparr>,
       \<lparr>f_name = ''port'', f_default = Some (PyObj 1), f_default_factory = None\<rparr>] \<and>
   set (mf_missing_fields (MissingFields_init example_python spec_normalize (PyStr ''err'')
      [(''myEnvVar'', PyObj 1)] ''C'' [(''myEnvVar'', PyObj 1)]
      [\<lparr>f_name = ''my_env_var'', f_default = None, f_default_factory = None\<rparr>,
       \<lparr>f_name = ''other'', f_default = None, f_default_factory = None\<rparr>,
       \<lparr>f_name = ''port'', f_default = Some (PyObj 1), f_default_factory = None\<rparr>] []))
     = {''my_env_var'', ''other''} \<and>
   mf_kwargs (MissingFields_init example_python spec_normalize (PyStr ''err'')
      [(''myEnvVar'', PyObj 1)] ''C'' [(''myEnvVar'', PyObj 1)]
      [\<lparr>f_name = ''my_env_var'', f_default = None, f_default_factory = None\<rparr>,
       \<lparr>f_name = ''other'', f_default = None, f_default_factory = None\<rparr>,
       \<lparr>f_name = ''port'', f_default = Some (PyObj 1), f_default_factory = None\<rparr>] [])
     = [(''key transform'', PyStr ''to_snake_case()''),
        (''resolution'',
         PyStr ''For more details, please see https://github.com/rnag/dataclass-wizard/issues/54'')] \<and>
   MissingFields_message example_python
     (MissingFields_init example_python spec_normalize (PyStr ''err'')
      [(''myEnvVar'', PyObj 1)] ''C'' [(''myEnvVar'', PyObj 1)]
      [\<lparr>f_name = ''my_env_var'', f_default = None, f_default_factory = None\<rparr>,
       \<lparr>f_name = ''other'', f_default = None, f_default_factory = None\<rparr>,
       \<lparr>f_name = ''port'', f_default = Some (PyObj 1), f_default_factory = None\<rparr>] [])
     = Inr (MissingFields_TEMPLATE ''C'' (repr_list example_python [''myEnvVar''])
              (repr_list example_python [''my_env_var'', ''other'']) ''{myEnvVar}'' ''err''
            @ sep @ ''key transform: to_snake_case()''
            @ sep @ ''resolution: For more details, please see ''
            @ ''https://github.com/rnag/dataclass-wizard/issues/54'')"
proof -
  let ?fields = "[\<lparr>f_name = ''my_env_var'', f_default = None, f_default_factory = None\<rparr>,
       \<lparr>f_name = ''other'', f_default = None, f_default_factory = None\<rparr>,
       \<lparr>f_name = ''port'', f_default = Some (PyObj (1::int)), f_default_factory = None\<rparr>]"
  let ?e = "MissingFields_init example_python spec_normalize (PyStr ''err'')
      [(''myEnvVar'', PyObj 1)] ''C'' [(''myEnvVar'', PyObj 1)] ?fields []"
  have h: "[] \<notin> f_name ` set ?fields"
    by simp
  have missing: "mf_missing_fields ?e = [''my_env_var'', ''other'']"
    by (simp add: MissingFields_init_missing)
  have collide: "spec_normalize ''my_env_var'' = spec_normalize ''myEnvVar''"
    by (simp add: spec_normalize_def str_eval)
  have dumps: "json_dumps example_python [(''myEnvVar'', PyObj 1)] = Inr ''{myEnvVar}''"
    by (simp add: example_python_def)
  note w = MissingFields_init_missing_and_hint [OF h, of example_python spec_normalize
        "PyStr ''err''" "[(''myEnvVar'', PyObj 1)]" "''C''" "[(''myEnvVar'', PyObj 1)]" "[]",
        unfolded Let_def]
  have "mf_kwargs ?e =
      AList.update ''resolution''
        (PyStr (''For more details, please see ''
                @ ''https://github.com/rnag/dataclass-wizard/issues/54''))
        (AList.update ''key transform''
           (PyStr (key_transform_name example_python ''C'' @ ''()'')) [])"
    using w collide by (simp add: missing)
  then have kw: "mf_kwargs ?e = [(''key transform'', PyStr ''to_snake_case()''),
        (''resolution'',
         PyStr ''For more details, please see https://github.com/rnag/dataclass-wizard/issues/54'')]"
    by (simp add: example_python_def)
  have tn: "type_name example_python ''C'' = ''C''"
    and ktn: "key_transform_name example_python ''C'' = ''to_snake_case''"
    by (simp_all add: example_python_def)
  have hint: "\<exists>f \<in> set (mf_missing_fields ?e). \<exists>key \<in> fst ` set [(''myEnvVar'', PyObj (1::int))].
      spec_normalize f = spec_normalize key"
    using collide by (simp add: missing)
  note second = w [THEN conjunct2, THEN conjunct1, rule_format, OF dumps]
  have "MissingFields_message example_python ?e =
      Inr (MissingFields_TEMPLATE (type_name example_python ''C'')
             (repr_list example_python (map fst [(''myEnvVar'', PyObj (1::int))]))
             (repr_list example_python (mf_missing_fields ?e)) ''{myEnvVar}''
             (str example_python (PyStr ''err''))
           @ sep @ ''key transform: '' @ key_transform_name example_python ''C'' @ ''()''
           @ sep @ ''resolution: '' @ ''For more details, please see ''
           @ ''https://github.com/rnag/dataclass-wizard/issues/54'')"
    using second unfolding if_P [OF hint] .
  then have msg: "MissingFields_message example_python ?e =
      Inr (MissingFields_TEMPLATE ''C'' (repr_list example_python [''myEnvVar''])
              (repr_list example_python [''my_env_var'', ''other'']) ''{myEnvVar}'' ''err''
            @ sep @ ''key transform: to_snake_case()''
            @ sep @ ''resolution: For more details, please see ''
            @ ''https://github.com/rnag/dataclass-wizard/issues/54'')"
    by (simp add: missing str_def tn ktn)
  from h missing kw msg show ?thesis
    by simp
qed

text \<open>
  The example of the claim C3 as stated fails. With \<^verbatim>\<open>{"myEnvVar": 1}\<close> as the keyword
  arguments the field \<^verbatim>\<open>my_env_var\<close> is missing too; and where the keyword arguments hold
  \<^verbatim>\<open>my_env_var\<close> itself, so that only \<^verbatim>\<open>other\<close> is missing, there is no hint.
\<close>

theorem MissingFields_example_counterexample:
  "mf_missing_fields (MissingFields_init example_python spec_normalize (PyStr ''err'')
      [(''myEnvVar'', PyObj 1)] ''C'' [(''myEnvVar'', PyObj 1)]
      [\<lparr>f_name = ''my_env_var'', f_default = None, f_default_factory = None\<rparr>,
       \<lparr>f_name = ''other'', f_default = None, f_default_factory = None\<rparr>] [])
     = [''my_env_var'', ''other''] \<and>
   mf_missing_fields (MissingFields_init example_python spec_normalize (PyStr ''err'')
      [(''myEnvVar'', PyObj 1)] ''C'' [(''my_env_var'', PyObj 1)]
      [\<lparr>f_name = ''my_env_var'', f_default = None, f_default_factory = None\<rparr>,
       \<lparr>f_name = ''other'', f_default = None, f_default_factory = None\<rparr>] [])
     = [''other''] \<and>
   mf_kwargs (MissingFields_init example_python spec_normalize (PyStr ''err'')
      [(''myEnvVar'', PyObj 1)] ''C'' [(''my_env_var'', PyObj 1)]
      [\<lparr>f_name = ''my_env_var'', f_default = None, f_default_factory = None\<rparr>,
       \<lparr>f_name = ''other'', f_default = None, f_default_factory = None\<rparr>] [])
     = []"
proof (intro conjI)
  show "mf_kwargs (MissingFields_init example_python spec_normalize (PyStr ''err'')
      [(''myEnvVar'', PyObj 1)] ''C'' [(''my_env_var'', PyObj 1)]
      [\<lparr>f_name = ''my_env_var'', f_default = None, f_default_factory = None\<rparr>,
       \<lparr>f_name = ''other'', f_default = None, f_default_factory = None\<rparr>] [])
     = []"
    unfolding MissingFields_init_kwargs
    by (simp add: MissingFields_init_missing spec_normalize_def str_eval)
qed (simp_all add: MissingFields_init_missing)

end
